theory Spec2Isabelle
  imports Complex_Main
begin

section \<open>MAGAN: the model of \<open>MAGAN/magan_model.py\<close>\<close>

text \<open>
  The module builds a TensorFlow graph: a generator, an auto-encoding discriminator,
  four loss scalars and three optimizer operations. A graph node is modelled by the
  function that a run of the session evaluates: it maps the environment of the run (the
  current values of the variables and the three fed placeholders) to the node's value.
  Building the graph declares variables by name; the list of the names declared so far is
  passed through the building functions, and the errors that building raises are values.

  A tensor is the list of its elements in row-major order; shapes belong to the layers,
  whose code (the module \<open>tfutil\<close>) is not part of \<open>magan_model.py\<close>.
\<close>

subsection \<open>Scalars\<close>

text \<open>
  The tensors are \<open>float32\<close>. A scalar is a number or the not-a-number value, which a
  placeholder can be fed and a layer can produce, and which every arithmetic operation
  passes on; a comparison with it is false. Rounding, overflow and the infinities are not
  represented: a number is carried exactly.
\<close>

datatype f32 = Num real | NaN

fun fadd :: "f32 \<Rightarrow> f32 \<Rightarrow> f32" where
  "fadd (Num a) (Num b) = Num (a + b)"
| "fadd _ _ = NaN"

fun fsub :: "f32 \<Rightarrow> f32 \<Rightarrow> f32" where
  "fsub (Num a) (Num b) = Num (a - b)"
| "fsub _ _ = NaN"

fun fmul :: "f32 \<Rightarrow> f32 \<Rightarrow> f32" where
  "fmul (Num a) (Num b) = Num (a * b)"
| "fmul _ _ = NaN"

fun fle :: "f32 \<Rightarrow> f32 \<Rightarrow> bool" where
  "fle (Num a) (Num b) = (a \<le> b)"
| "fle _ _ = False"

fun flt :: "f32 \<Rightarrow> f32 \<Rightarrow> bool" where
  "flt (Num a) (Num b) = (a < b)"
| "flt _ _ = False"

subsection \<open>Tensors, environments, nodes\<close>

type_synonym tensor = "f32 list"

record env =
  params :: "string \<Rightarrow> tensor"
  x_image :: tensor
  z_noise :: tensor
  margin :: f32

type_synonym 'a node = "env \<Rightarrow> 'a"

datatype error = AssertionError | ValueError

definition bindE :: "error + 'a \<Rightarrow> ('a \<Rightarrow> error + 'b) \<Rightarrow> error + 'b" where
  "bindE m f = (case m of Inl e \<Rightarrow> Inl e | Inr v \<Rightarrow> f v)"

subsection \<open>The constructor's arguments\<close>

text \<open>The fields of \<open>MAGAN.__init__\<close> that are numbers, with Python's unbounded integers.\<close>

record cfg =
  batch_size :: int
  height :: int
  width :: int
  channel :: int
  n_classes :: int
  sample_num :: int
  sample_size :: int
  n_input :: int
  df_dim :: int
  gf_dim :: int
  fc_unit :: int
  z_dim :: int
  g_lr :: real
  d_lr :: real
  beta1 :: real
  beta2 :: real
  pt_lambda :: real

text \<open>
  \<open>MAGAN(s)\<close> with every keyword argument at its default; \<open>beta1\<close>, \<open>beta2\<close> and
  \<open>pt_lambda\<close> are the constants that \<open>__init__\<close> assigns.
\<close>

definition MAGAN_init :: cfg where
  "MAGAN_init =
     \<lparr>batch_size = 64, height = 28, width = 28, channel = 1, n_classes = 10,
      sample_num = 10 * 10, sample_size = 10,
      n_input = 784, df_dim = 64, gf_dim = 64, fc_unit = 512,
      z_dim = 128, g_lr = 2 / 10 ^ 4, d_lr = 2 / 10 ^ 4,
      beta1 = 0.5, beta2 = 0.9, pt_lambda = 0.1\<rparr>"

subsection \<open>Variable scopes\<close>

text \<open>
  \<open>with tf.variable_scope(name, reuse=reuse)\<close> extends the path under which variables
  are named and, when \<open>reuse\<close> is \<open>True\<close>, switches the scope and everything nested in
  it to reuse; \<open>reuse=None\<close> inherits the flag of the enclosing scope. The scope is
  ambient state in TensorFlow and an explicit argument here.
\<close>

record scope =
  path :: string
  reusing :: bool

definition root_scope :: scope where
  "root_scope = \<lparr>path = [], reusing = False\<rparr>"

definition variable_scope :: "scope \<Rightarrow> string \<Rightarrow> bool option \<Rightarrow> scope" where
  "variable_scope sc name reuse =
     \<lparr>path = path sc @ name @ ''/'',
      reusing = (case reuse of Some True \<Rightarrow> True | _ \<Rightarrow> reusing sc)\<rparr>"

text \<open>
  Getting the variables of a layer: in a reusing scope each of them must exist already
  and none is added; otherwise none of them may exist, and they are appended to the
  graph's variables in the order of their creation.
\<close>

definition get_variables :: "scope \<Rightarrow> string list \<Rightarrow> string list \<Rightarrow> error + string list" where
  "get_variables sc names vs =
     (if reusing sc
      then (if list_all (\<lambda>n. n \<in> set vs) names then Inr vs else Inl ValueError)
      else (if list_ex (\<lambda>n. n \<in> set vs) names then Inl ValueError else Inr (vs @ names)))"

subsection \<open>The layers of \<open>tfutil\<close> and the optimizer\<close>

text \<open>
  The layer functions \<open>t.conv2d\<close>, \<open>t.deconv2d\<close>, \<open>t.batch_norm\<close> and \<open>t.dense\<close>
  are defined in \<open>tfutil\<close>, which is not among the sources. They are parameters of the
  model: for each kind of layer the names of the trainable variables it creates inside
  its own scope, and the function it computes from the values of these variables, its
  input and its arguments. The step that Adam takes on one variable is a parameter too.
\<close>

datatype layer = Conv2d | Deconv2d | BatchNorm | Dense

record substrate =
  trainable :: "layer \<Rightarrow> string list"
  conv2d :: "tensor list \<Rightarrow> tensor \<Rightarrow> int \<Rightarrow> int \<Rightarrow> int \<Rightarrow> tensor"
  deconv2d :: "tensor list \<Rightarrow> tensor \<Rightarrow> int \<Rightarrow> int \<Rightarrow> int \<Rightarrow> tensor"
  batch_norm :: "tensor list \<Rightarrow> tensor \<Rightarrow> bool option \<Rightarrow> tensor"
  dense :: "tensor list \<Rightarrow> tensor \<Rightarrow> int \<Rightarrow> tensor"
  adam :: "real \<Rightarrow> real \<Rightarrow> real \<Rightarrow> f32 node \<Rightarrow> string \<Rightarrow> env \<Rightarrow> tensor"

definition var_names :: "substrate \<Rightarrow> scope \<Rightarrow> layer \<Rightarrow> string \<Rightarrow> string list" where
  "var_names tf sc l name = map (\<lambda>v. path sc @ name @ ''/'' @ v) (trainable tf l)"

text \<open>
  A call of a layer named \<open>name\<close> in the scope \<open>sc\<close>: its variables are got under
  the scope's path, and the node it returns applies the layer's function \<open>f\<close> to the
  current values of these variables and to the value of the input node.
\<close>

definition layer_call ::
  "substrate \<Rightarrow> scope \<Rightarrow> string list \<Rightarrow> layer \<Rightarrow> string \<Rightarrow> (tensor list \<Rightarrow> tensor \<Rightarrow> tensor)
     \<Rightarrow> tensor node \<Rightarrow> error + (string list \<times> tensor node)" where
  "layer_call tf sc vs l name f x =
     bindE (get_variables sc (var_names tf sc l name) vs) (\<lambda>vs'.
       Inr (vs', \<lambda>e. f (map (params e) (var_names tf sc l name)) (x e)))"

definition t_conv2d ::
  "substrate \<Rightarrow> scope \<Rightarrow> string list \<Rightarrow> tensor node \<Rightarrow> int \<Rightarrow> int \<Rightarrow> int \<Rightarrow> string
     \<Rightarrow> error + (string list \<times> tensor node)" where
  "t_conv2d tf sc vs x f k s name =
     layer_call tf sc vs Conv2d name (\<lambda>ps v. conv2d tf ps v f k s) x"

definition t_deconv2d ::
  "substrate \<Rightarrow> scope \<Rightarrow> string list \<Rightarrow> tensor node \<Rightarrow> int \<Rightarrow> int \<Rightarrow> int \<Rightarrow> string
     \<Rightarrow> error + (string list \<times> tensor node)" where
  "t_deconv2d tf sc vs x f k s name =
     layer_call tf sc vs Deconv2d name (\<lambda>ps v. deconv2d tf ps v f k s) x"

definition t_batch_norm ::
  "substrate \<Rightarrow> scope \<Rightarrow> string list \<Rightarrow> tensor node \<Rightarrow> bool option \<Rightarrow> string
     \<Rightarrow> error + (string list \<times> tensor node)" where
  "t_batch_norm tf sc vs x is_train name =
     layer_call tf sc vs BatchNorm name (\<lambda>ps v. batch_norm tf ps v is_train) x"

definition t_dense ::
  "substrate \<Rightarrow> scope \<Rightarrow> string list \<Rightarrow> tensor node \<Rightarrow> int \<Rightarrow> string
     \<Rightarrow> error + (string list \<times> tensor node)" where
  "t_dense tf sc vs x units name =
     layer_call tf sc vs Dense name (\<lambda>ps v. dense tf ps v units) x"

text \<open>
  The reductions \<open>tf.reduce_sum\<close> and \<open>tf.reduce_mean\<close> over all elements; the mean
  of an empty tensor is \<open>0 / 0\<close>, not a number.
\<close>

fun reduce_sum :: "tensor \<Rightarrow> f32" where
  "reduce_sum [] = Num 0"
| "reduce_sum (v # vs) = fadd v (reduce_sum vs)"

definition reduce_mean :: "tensor \<Rightarrow> f32" where
  "reduce_mean x =
     (if x = [] then NaN
      else case reduce_sum x of Num s \<Rightarrow> Num (s / real (length x)) | NaN \<Rightarrow> NaN)"

text \<open>
  Modelled from the spec: \<open>tfutil.mse_loss\<close> is not among the sources; the spec calls
  it the mean-squared error of its two arguments, the mean over the elements of the
  squared elementwise difference.
\<close>

definition mse_loss :: "tensor \<Rightarrow> tensor \<Rightarrow> f32" where
  "mse_loss x y = reduce_mean (map2 (\<lambda>a b. fmul (fsub a b) (fsub a b)) x y)"

text \<open>
  The elementwise operations of TensorFlow that the module calls: \<open>tf.maximum\<close>,
  \<open>tf.nn.leaky_relu\<close> (the maximum of the input scaled by the default slope 0.2 and
  the input), \<open>tf.nn.sigmoid\<close>, \<open>tf.nn.tanh\<close>, and \<open>tf.reshape\<close>, which keeps
  the elements and their order.
\<close>

fun maximum :: "f32 \<Rightarrow> f32 \<Rightarrow> f32" where
  "maximum (Num a) (Num b) = Num (max a b)"
| "maximum _ _ = NaN"

definition leaky_relu :: "tensor \<Rightarrow> tensor" where
  "leaky_relu x = map (\<lambda>v. maximum (fmul (Num 0.2) v) v) x"

definition sigmoid :: "tensor \<Rightarrow> tensor" where
  "sigmoid x = map (\<lambda>v. case v of Num r \<Rightarrow> Num (1 / (1 + exp (- r))) | NaN \<Rightarrow> NaN) x"

definition tf_tanh :: "tensor \<Rightarrow> tensor" where
  "tf_tanh x = map (\<lambda>v. case v of Num r \<Rightarrow> Num (tanh r) | NaN \<Rightarrow> NaN) x"

definition reshape :: "tensor \<Rightarrow> int list \<Rightarrow> tensor" where
  "reshape x shape = x"

text \<open>
  \<open>tf.train.AdamOptimizer(lr, beta1, beta2).minimize(loss, var_list)\<close>: a run of the
  operation assigns the optimizer's new value to each variable of \<open>var_list\<close> and to no
  other variable of the model. The result is the variable store after the run.
\<close>

definition minimize ::
  "substrate \<Rightarrow> real \<Rightarrow> real \<Rightarrow> real \<Rightarrow> f32 node \<Rightarrow> string list \<Rightarrow> env \<Rightarrow> string \<Rightarrow> tensor" where
  "minimize tf lr b1 b2 loss var_list e n =
     (if n \<in> set var_list then adam tf lr b1 b2 loss n e else params e n)"

text \<open>Python's \<open>s.startswith(p)\<close>.\<close>

definition startswith :: "string \<Rightarrow> string \<Rightarrow> bool" where
  "startswith s p = (take (length p) s = p)"

subsection \<open>The networks\<close>

definition encoder ::
  "substrate \<Rightarrow> cfg \<Rightarrow> scope \<Rightarrow> string list \<Rightarrow> tensor node \<Rightarrow> bool option
     \<Rightarrow> error + (string list \<times> tensor node)" where
  "encoder tf c sc0 vs0 x0 reuse =
     (let sc = variable_scope sc0 ''encoder'' reuse in
      bindE (t_conv2d tf sc vs0 x0 (df_dim c * 1) 4 2 ''enc-conv2d-1'') (\<lambda>(vs1, x1).
      bindE (t_conv2d tf sc vs1 (leaky_relu \<circ> x1) (df_dim c * 2) 4 2 ''enc-conv2d-2'') (\<lambda>(vs2, x2).
      bindE (t_batch_norm tf sc vs2 x2 None ''enc-bn-1'') (\<lambda>(vs3, x3).
      bindE (t_conv2d tf sc vs3 (leaky_relu \<circ> x3) (df_dim c * 4) 4 2 ''enc-conv2d-3'') (\<lambda>(vs4, x4).
      bindE (t_batch_norm tf sc vs4 x4 None ''enc-bn-2'') (\<lambda>(vs5, x5).
      Inr (vs5, leaky_relu \<circ> x5)))))))"

definition decoder ::
  "substrate \<Rightarrow> cfg \<Rightarrow> scope \<Rightarrow> string list \<Rightarrow> tensor node \<Rightarrow> bool option
     \<Rightarrow> error + (string list \<times> tensor node)" where
  "decoder tf c sc0 vs0 x0 reuse =
     (let sc = variable_scope sc0 ''decoder'' reuse in
      bindE (t_deconv2d tf sc vs0 x0 (df_dim c * 2) 4 2 ''dec-deconv2d-1'') (\<lambda>(vs1, x1).
      bindE (t_batch_norm tf sc vs1 x1 None ''dec-bn-1'') (\<lambda>(vs2, x2).
      bindE (t_deconv2d tf sc vs2 (leaky_relu \<circ> x2) (df_dim c * 1) 4 2 ''dec-deconv2d-2'') (\<lambda>(vs3, x3).
      bindE (t_batch_norm tf sc vs3 x3 None ''dec-bn-2'') (\<lambda>(vs4, x4).
      bindE (t_deconv2d tf sc vs4 (leaky_relu \<circ> x4) (channel c) 4 2 ''dec-deconv2d-3'') (\<lambda>(vs5, x5).
      Inr (vs5, sigmoid \<circ> x5)))))))"

definition discriminator ::
  "substrate \<Rightarrow> cfg \<Rightarrow> scope \<Rightarrow> string list \<Rightarrow> tensor node \<Rightarrow> bool option
     \<Rightarrow> error + (string list \<times> tensor node \<times> tensor node)" where
  "discriminator tf c sc0 vs0 x reuse =
     (let sc = variable_scope sc0 ''discriminator'' reuse in
      bindE (encoder tf c sc vs0 x reuse) (\<lambda>(vs1, embeddings).
      bindE (decoder tf c sc vs1 embeddings reuse) (\<lambda>(vs2, decoded).
      Inr (vs2, embeddings, decoded))))"

text \<open>
  The generator's assertion is Python's \<open>4 * 4 * self.gf_dim // 2\<close>: the operators have
  the same precedence and associate to the left, so the product is divided, rounding
  down. The reshape that follows uses \<open>self.gf_dim // 2\<close>.
\<close>

definition generator ::
  "substrate \<Rightarrow> cfg \<Rightarrow> scope \<Rightarrow> string list \<Rightarrow> tensor node \<Rightarrow> bool option \<Rightarrow> bool
     \<Rightarrow> error + (string list \<times> tensor node)" where
  "generator tf c sc0 vs0 z reuse is_train =
     (let sc = variable_scope sc0 ''generator'' reuse in
      if fc_unit c \<noteq> 4 * 4 * gf_dim c div 2 then Inl AssertionError
      else
      bindE (t_dense tf sc vs0 z (fc_unit c) ''gen-fc-1'') (\<lambda>(vs1, x1).
      bindE (t_batch_norm tf sc vs1 x1 (Some is_train) ''gen-bn-1'') (\<lambda>(vs2, x2).
      let x3 = (\<lambda>e. reshape (leaky_relu (x2 e)) [- 1, 4, 4, gf_dim c div 2]) in
      bindE (t_deconv2d tf sc vs2 x3 (gf_dim c * 4) 4 2 ''gen-deconv2d-1'') (\<lambda>(vs3, x4).
      bindE (t_batch_norm tf sc vs3 x4 (Some is_train) ''gen-bn-2'') (\<lambda>(vs4, x5).
      bindE (t_deconv2d tf sc vs4 (leaky_relu \<circ> x5) (gf_dim c * 2) 4 2 ''gen-deconv2d-2'') (\<lambda>(vs5, x6).
      bindE (t_batch_norm tf sc vs5 x6 (Some is_train) ''gen-bn-3'') (\<lambda>(vs6, x7).
      bindE (t_deconv2d tf sc vs6 (leaky_relu \<circ> x7) (channel c) 4 2 ''gen-deconv2d-3'') (\<lambda>(vs7, x8).
      Inr (vs7, tf_tanh \<circ> x8)))))))))"

subsection \<open>Building the model\<close>

text \<open>
  What \<open>build_magan\<close> leaves in the object, and its three local lists of variables.
  The summaries, the saver and the writer only log and store; they are left out.
\<close>

record magan =
  g :: "tensor node"
  g_test :: "tensor node"
  d_real_loss :: "f32 node"
  d_fake_loss :: "f32 node"
  d_loss :: "f32 node"
  g_loss :: "f32 node"
  t_vars :: "string list"
  d_params :: "string list"
  g_params :: "string list"
  d_real_op :: "env \<Rightarrow> string \<Rightarrow> tensor"
  d_op :: "env \<Rightarrow> string \<Rightarrow> tensor"
  g_op :: "env \<Rightarrow> string \<Rightarrow> tensor"

definition build_magan :: "substrate \<Rightarrow> cfg \<Rightarrow> string list \<Rightarrow> error + magan" where
  "build_magan tf c vs0 =
     bindE (generator tf c root_scope vs0 z_noise None True) (\<lambda>(vs1, gen).
     bindE (generator tf c root_scope vs1 z_noise (Some True) False) (\<lambda>(vs2, gen_test).
     bindE (discriminator tf c root_scope vs2 x_image None) (\<lambda>(vs3, _, d_real).
     bindE (discriminator tf c root_scope vs3 gen (Some True)) (\<lambda>(vs4, _, d_fake).
     let real_loss = (\<lambda>e. mse_loss (x_image e) (d_real e));
         fake_loss = (\<lambda>e. mse_loss (gen e) (d_fake e));
         loss = (\<lambda>e. fadd (real_loss e) (maximum (Num 0) (fsub (margin e) (fake_loss e))));
         gen_loss = fake_loss;
         dps = filter (\<lambda>v. startswith v ''d'') vs4;
         gps = filter (\<lambda>v. startswith v ''g'') vs4
     in Inr \<lparr>g = gen, g_test = gen_test,
             d_real_loss = real_loss, d_fake_loss = fake_loss, d_loss = loss, g_loss = gen_loss,
             t_vars = vs4, d_params = dps, g_params = gps,
             d_real_op = minimize tf (d_lr c) (beta1 c) (beta2 c) real_loss dps,
             d_op = minimize tf (d_lr c) (beta1 c) (beta2 c) loss dps,
             g_op = minimize tf (g_lr c) (beta1 c) (beta2 c) gen_loss gps\<rparr>))))"

subsection \<open>A concrete instance\<close>

text \<open>
  A small substrate on which the model can be run: every layer has two variables and
  acts elementwise, scaling or shifting its input by the sum of its variables, and the
  optimizer moves a variable against the loss. In the environment \<open>toy_env\<close> all
  variables are zero, the image batch is \<open>[1, 0]\<close>, the noise batch is all zeros and
  the margin is \<open>1 / 8\<close>.
\<close>

definition toy_tf :: substrate where
  "toy_tf =
     \<lparr>trainable = (\<lambda>l. case l of BatchNorm \<Rightarrow> [''gamma:0'', ''beta:0''] | _ \<Rightarrow> [''kernel:0'', ''bias:0'']),
      conv2d = (\<lambda>ps x f k s. map (\<lambda>v. fmul (reduce_sum (map reduce_sum ps)) v) x),
      deconv2d = (\<lambda>ps x f k s. map (\<lambda>v. fmul (reduce_sum (map reduce_sum ps)) v) x),
      batch_norm = (\<lambda>ps x t. map (\<lambda>v. fadd v (reduce_sum (map reduce_sum ps))) x),
      dense = (\<lambda>ps x u. map (\<lambda>v. fmul (reduce_sum (map reduce_sum ps)) v) x),
      adam = (\<lambda>lr b1 b2 loss n e. map (\<lambda>v. fsub v (fmul (Num lr) (loss e))) (params e n))\<rparr>"

definition toy_env :: env where
  "toy_env =
     \<lparr>params = (\<lambda>n. [Num 0]), x_image = [Num 1, Num 0], z_noise = [Num 0, Num 0],
      margin = Num (1 / 8)\<rparr>"

text \<open>
  Three environments that differ from \<open>toy_env\<close> in one fed value, which is not a
  number: the margin, the first pixel of the image batch, the first element of the noise
  batch.
\<close>

definition nan_margin_env :: env where
  "nan_margin_env = toy_env\<lparr>margin := NaN\<rparr>"

definition nan_image_env :: env where
  "nan_image_env = toy_env\<lparr>x_image := [NaN, Num 0]\<rparr>"

definition nan_noise_env :: env where
  "nan_noise_env = toy_env\<lparr>z_noise := [NaN, Num 0]\<rparr>"

text \<open>
  The variables that building the model on this substrate declares, in the order of
  their creation, and the model that building in an empty graph returns.
\<close>

definition toy_g_vars :: "string list" where
  "toy_g_vars =
    [''generator/gen-fc-1/kernel:0'', ''generator/gen-fc-1/bias:0'',
     ''generator/gen-bn-1/gamma:0'', ''generator/gen-bn-1/beta:0'',
     ''generator/gen-deconv2d-1/kernel:0'', ''generator/gen-deconv2d-1/bias:0'',
     ''generator/gen-bn-2/gamma:0'', ''generator/gen-bn-2/beta:0'',
     ''generator/gen-deconv2d-2/kernel:0'', ''generator/gen-deconv2d-2/bias:0'',
     ''generator/gen-bn-3/gamma:0'', ''generator/gen-bn-3/beta:0'',
     ''generator/gen-deconv2d-3/kernel:0'', ''generator/gen-deconv2d-3/bias:0'']"

definition toy_d_vars :: "string list" where
  "toy_d_vars =
    [''discriminator/encoder/enc-conv2d-1/kernel:0'', ''discriminator/encoder/enc-conv2d-1/bias:0'',
     ''discriminator/encoder/enc-conv2d-2/kernel:0'', ''discriminator/encoder/enc-conv2d-2/bias:0'',
     ''discriminator/encoder/enc-bn-1/gamma:0'', ''discriminator/encoder/enc-bn-1/beta:0'',
     ''discriminator/encoder/enc-conv2d-3/kernel:0'', ''discriminator/encoder/enc-conv2d-3/bias:0'',
     ''discriminator/encoder/enc-bn-2/gamma:0'', ''discriminator/encoder/enc-bn-2/beta:0'',
     ''discriminator/decoder/dec-deconv2d-1/kernel:0'', ''discriminator/decoder/dec-deconv2d-1/bias:0'',
     ''discriminator/decoder/dec-bn-1/gamma:0'', ''discriminator/decoder/dec-bn-1/beta:0'',
     ''discriminator/decoder/dec-deconv2d-2/kernel:0'', ''discriminator/decoder/dec-deconv2d-2/bias:0'',
     ''discriminator/decoder/dec-bn-2/gamma:0'', ''discriminator/decoder/dec-bn-2/beta:0'',
     ''discriminator/decoder/dec-deconv2d-3/kernel:0'', ''discriminator/decoder/dec-deconv2d-3/bias:0'']"

definition toy_magan :: magan where
  "toy_magan = projr (build_magan toy_tf MAGAN_init [])"

section \<open>Properties\<close>

subsection \<open>Errors, names and variables\<close>

lemma bindE_Inr_iff: "bindE m f = Inr r \<longleftrightarrow> (\<exists>v. m = Inr v \<and> f v = Inr r)"
  by (cases m) (simp_all add: bindE_def)

lemma startswith_iff: "startswith s p \<longleftrightarrow> (\<exists>t. s = p @ t)"
proof
  assume "startswith s p"
  then have "s = p @ drop (length p) s"
    by (metis append_take_drop_id startswith_def)
  then show "\<exists>t. s = p @ t" ..
next
  assume "\<exists>t. s = p @ t"
  then show "startswith s p" by (auto simp: startswith_def)
qed

lemma startswith_d_g: "startswith n ''d'' \<Longrightarrow> startswith n ''g'' \<Longrightarrow> False"
  by (auto simp: startswith_iff)

lemma get_variables_mono:
  assumes "get_variables sc ns vs = Inr vs'"
  shows "set vs \<subseteq> set vs'" and "set ns \<subseteq> set vs'" and "set vs' \<subseteq> set vs \<union> set ns"
  using assms by (auto simp: get_variables_def list_all_iff list_ex_iff split: if_splits)

lemma get_variables_reuse:
  "reusing sc \<Longrightarrow> set ns \<subseteq> set ws \<Longrightarrow> get_variables sc ns ws = Inr ws"
  by (auto simp: get_variables_def list_all_iff)

lemma layer_call_Inr_iff:
  "layer_call tf sc vs l name f x = Inr (vs', y) \<longleftrightarrow>
     get_variables sc (var_names tf sc l name) vs = Inr vs' \<and>
     y = (\<lambda>e. f (map (params e) (var_names tf sc l name)) (x e))"
  by (auto simp: layer_call_def bindE_Inr_iff)

lemma var_names_path: "path sc' = path sc \<Longrightarrow> var_names tf sc' l name = var_names tf sc l name"
  by (simp add: var_names_def)

lemma var_names_startswith: "n \<in> set (var_names tf sc l name) \<Longrightarrow> startswith n (path sc)"
  by (auto simp: var_names_def startswith_iff)

lemma layer_call_reuse:
  assumes "layer_call tf sc vs l name f x = Inr (vs1, y)" and "set vs1 \<subseteq> set ws"
    and "path sc' = path sc" and "reusing sc'"
  shows "layer_call tf sc' ws l name f x' =
           Inr (ws, \<lambda>e. f (map (params e) (var_names tf sc l name)) (x' e))"
proof -
  from assms(1) have "get_variables sc (var_names tf sc l name) vs = Inr vs1"
    by (simp add: layer_call_Inr_iff)
  then have "set (var_names tf sc l name) \<subseteq> set vs1"
    by (rule get_variables_mono(2))
  with assms(2) have "set (var_names tf sc' l name) \<subseteq> set ws"
    by (simp add: var_names_path [OF assms(3)])
  then have "get_variables sc' (var_names tf sc' l name) ws = Inr ws"
    using assms(4) by (rule get_variables_reuse [rotated])
  then show ?thesis
    by (simp add: layer_call_def bindE_def var_names_path [OF assms(3)])
qed

lemma layer_call_vars:
  assumes "layer_call tf sc vs l name f x = Inr (vs1, y)"
  shows "set vs \<subseteq> set vs1"
    and "\<forall>n\<in>set vs1. n \<in> set vs \<or> startswith n (path sc)"
    and "y = (\<lambda>e. f (map (params e) (var_names tf sc l name)) (x e))"
  using assms get_variables_mono [of sc "var_names tf sc l name" vs vs1]
  by (auto simp: layer_call_Inr_iff dest: var_names_startswith)

subsection \<open>The networks, layer by layer\<close>

lemma path_variable_scope [simp]: "path (variable_scope sc name r) = path sc @ name @ ''/''"
  by (simp add: variable_scope_def)

lemma reusing_variable_scope_True [simp]: "reusing (variable_scope sc name (Some True))"
  by (simp add: variable_scope_def)

lemma startswith_append: "startswith n (p @ q) \<Longrightarrow> startswith n p"
  by (auto simp: startswith_iff)

lemma encoderE:
  assumes "encoder tf c sc0 vs0 x0 reuse = Inr (vs5, out)"
  obtains vs1 x1 vs2 x2 vs3 x3 vs4 x4 x5 where
    "layer_call tf (variable_scope sc0 ''encoder'' reuse) vs0 Conv2d ''enc-conv2d-1''
       (\<lambda>ps v. conv2d tf ps v (df_dim c) 4 2) x0 = Inr (vs1, x1)"
    "layer_call tf (variable_scope sc0 ''encoder'' reuse) vs1 Conv2d ''enc-conv2d-2''
       (\<lambda>ps v. conv2d tf ps v (df_dim c * 2) 4 2) (leaky_relu \<circ> x1) = Inr (vs2, x2)"
    "layer_call tf (variable_scope sc0 ''encoder'' reuse) vs2 BatchNorm ''enc-bn-1''
       (\<lambda>ps v. batch_norm tf ps v None) x2 = Inr (vs3, x3)"
    "layer_call tf (variable_scope sc0 ''encoder'' reuse) vs3 Conv2d ''enc-conv2d-3''
       (\<lambda>ps v. conv2d tf ps v (df_dim c * 4) 4 2) (leaky_relu \<circ> x3) = Inr (vs4, x4)"
    "layer_call tf (variable_scope sc0 ''encoder'' reuse) vs4 BatchNorm ''enc-bn-2''
       (\<lambda>ps v. batch_norm tf ps v None) x4 = Inr (vs5, x5)"
    "out = leaky_relu \<circ> x5"
  using assms
  by (auto simp: encoder_def Let_def bindE_Inr_iff t_conv2d_def t_batch_norm_def)

lemma encoder_vars:
  assumes "encoder tf c sc vs x r = Inr (vs', out)"
  shows "set vs \<subseteq> set vs'"
    and "\<forall>n\<in>set vs'. n \<in> set vs \<or> startswith n (path sc @ ''encoder/'')"
proof -
  from assms obtain vs1 x1 vs2 x2 vs3 x3 vs4 x4 x5 where
    l: "layer_call tf (variable_scope sc ''encoder'' r) vs Conv2d ''enc-conv2d-1''
       (\<lambda>ps v. conv2d tf ps v (df_dim c) 4 2) x = Inr (vs1, x1)"
    "layer_call tf (variable_scope sc ''encoder'' r) vs1 Conv2d ''enc-conv2d-2''
       (\<lambda>ps v. conv2d tf ps v (df_dim c * 2) 4 2) (leaky_relu \<circ> x1) = Inr (vs2, x2)"
    "layer_call tf (variable_scope sc ''encoder'' r) vs2 BatchNorm ''enc-bn-1''
       (\<lambda>ps v. batch_norm tf ps v None) x2 = Inr (vs3, x3)"
    "layer_call tf (variable_scope sc ''encoder'' r) vs3 Conv2d ''enc-conv2d-3''
       (\<lambda>ps v. conv2d tf ps v (df_dim c * 4) 4 2) (leaky_relu \<circ> x3) = Inr (vs4, x4)"
    "layer_call tf (variable_scope sc ''encoder'' r) vs4 BatchNorm ''enc-bn-2''
       (\<lambda>ps v. batch_norm tf ps v None) x4 = Inr (vs', x5)"
    by (rule encoderE) blast
  note m = l [THEN layer_call_vars(1)] and p = l [THEN layer_call_vars(2), simplified]
  show "set vs \<subseteq> set vs'" using m by blast
  show "\<forall>n\<in>set vs'. n \<in> set vs \<or> startswith n (path sc @ ''encoder/'')"
    using p by blast
qed

lemma encoder_reuse:
  assumes "encoder tf c sc vs x r = Inr (vs', out)" and "set vs' \<subseteq> set ws"
    and "path sc' = path sc"
  shows "\<exists>out'. encoder tf c sc' ws x' (Some True) = Inr (ws, out') \<and>
           (\<forall>e e'. params e = params e' \<longrightarrow> x e = x' e' \<longrightarrow> out e = out' e')"
proof -
  let ?s = "variable_scope sc ''encoder'' r"
  let ?s' = "variable_scope sc' ''encoder'' (Some True)"
  have ps: "path ?s' = path ?s" using assms(3) by simp
  have ru: "reusing ?s'" by simp
  from assms(1) obtain vs1 x1 vs2 x2 vs3 x3 vs4 x4 x5 where
    l: "layer_call tf ?s vs Conv2d ''enc-conv2d-1''
       (\<lambda>ps v. conv2d tf ps v (df_dim c) 4 2) x = Inr (vs1, x1)"
    "layer_call tf ?s vs1 Conv2d ''enc-conv2d-2''
       (\<lambda>ps v. conv2d tf ps v (df_dim c * 2) 4 2) (leaky_relu \<circ> x1) = Inr (vs2, x2)"
    "layer_call tf ?s vs2 BatchNorm ''enc-bn-1''
       (\<lambda>ps v. batch_norm tf ps v None) x2 = Inr (vs3, x3)"
    "layer_call tf ?s vs3 Conv2d ''enc-conv2d-3''
       (\<lambda>ps v. conv2d tf ps v (df_dim c * 4) 4 2) (leaky_relu \<circ> x3) = Inr (vs4, x4)"
    "layer_call tf ?s vs4 BatchNorm ''enc-bn-2''
       (\<lambda>ps v. batch_norm tf ps v None) x4 = Inr (vs', x5)"
    and out: "out = leaky_relu \<circ> x5"
    by (rule encoderE) blast
  note m = l [THEN layer_call_vars(1)]
  have s: "set vs1 \<subseteq> set ws" "set vs2 \<subseteq> set ws" "set vs3 \<subseteq> set ws" "set vs4 \<subseteq> set ws"
    using m assms(2) by blast+
  note r = layer_call_reuse [OF l(1) s(1) ps ru] layer_call_reuse [OF l(2) s(2) ps ru]
    layer_call_reuse [OF l(3) s(3) ps ru] layer_call_reuse [OF l(4) s(4) ps ru]
    layer_call_reuse [OF l(5) assms(2) ps ru]
  note y = l [THEN layer_call_vars(3)]
  show ?thesis
    by (simp add: encoder_def Let_def bindE_def t_conv2d_def t_batch_norm_def r out y)
qed

lemma decoderE:
  assumes "decoder tf c sc0 vs0 x0 reuse = Inr (vs5, out)"
  obtains vs1 x1 vs2 x2 vs3 x3 vs4 x4 x5 where
    "layer_call tf (variable_scope sc0 ''decoder'' reuse) vs0 Deconv2d ''dec-deconv2d-1''
       (\<lambda>ps v. deconv2d tf ps v (df_dim c * 2) 4 2) x0 = Inr (vs1, x1)"
    "layer_call tf (variable_scope sc0 ''decoder'' reuse) vs1 BatchNorm ''dec-bn-1''
       (\<lambda>ps v. batch_norm tf ps v None) x1 = Inr (vs2, x2)"
    "layer_call tf (variable_scope sc0 ''decoder'' reuse) vs2 Deconv2d ''dec-deconv2d-2''
       (\<lambda>ps v. deconv2d tf ps v (df_dim c) 4 2) (leaky_relu \<circ> x2) = Inr (vs3, x3)"
    "layer_call tf (variable_scope sc0 ''decoder'' reuse) vs3 BatchNorm ''dec-bn-2''
       (\<lambda>ps v. batch_norm tf ps v None) x3 = Inr (vs4, x4)"
    "layer_call tf (variable_scope sc0 ''decoder'' reuse) vs4 Deconv2d ''dec-deconv2d-3''
       (\<lambda>ps v. deconv2d tf ps v (channel c) 4 2) (leaky_relu \<circ> x4) = Inr (vs5, x5)"
    "out = sigmoid \<circ> x5"
  using assms
  by (auto simp: decoder_def Let_def bindE_Inr_iff t_deconv2d_def t_batch_norm_def)

lemma decoder_vars:
  assumes "decoder tf c sc vs x r = Inr (vs', out)"
  shows "set vs \<subseteq> set vs'"
    and "\<forall>n\<in>set vs'. n \<in> set vs \<or> startswith n (path sc @ ''decoder/'')"
proof -
  let ?s = "variable_scope sc ''decoder'' r"
  from assms obtain vs1 x1 vs2 x2 vs3 x3 vs4 x4 x5 where
    l: "layer_call tf ?s vs Deconv2d ''dec-deconv2d-1''
       (\<lambda>ps v. deconv2d tf ps v (df_dim c * 2) 4 2) x = Inr (vs1, x1)"
    "layer_call tf ?s vs1 BatchNorm ''dec-bn-1''
       (\<lambda>ps v. batch_norm tf ps v None) x1 = Inr (vs2, x2)"
    "layer_call tf ?s vs2 Deconv2d ''dec-deconv2d-2''
       (\<lambda>ps v. deconv2d tf ps v (df_dim c) 4 2) (leaky_relu \<circ> x2) = Inr (vs3, x3)"
    "layer_call tf ?s vs3 BatchNorm ''dec-bn-2''
       (\<lambda>ps v. batch_norm tf ps v None) x3 = Inr (vs4, x4)"
    "layer_call tf ?s vs4 Deconv2d ''dec-deconv2d-3''
       (\<lambda>ps v. deconv2d tf ps v (channel c) 4 2) (leaky_relu \<circ> x4) = Inr (vs', x5)"
    by (rule decoderE) blast
  note m = l [THEN layer_call_vars(1)] and p = l [THEN layer_call_vars(2), simplified]
  show "set vs \<subseteq> set vs'" using m by blast
  show "\<forall>n\<in>set vs'. n \<in> set vs \<or> startswith n (path sc @ ''decoder/'')"
    using p by blast
qed

lemma decoder_reuse:
  assumes "decoder tf c sc vs x r = Inr (vs', out)" and "set vs' \<subseteq> set ws"
    and "path sc' = path sc"
  shows "\<exists>out'. decoder tf c sc' ws x' (Some True) = Inr (ws, out') \<and>
           (\<forall>e e'. params e = params e' \<longrightarrow> x e = x' e' \<longrightarrow> out e = out' e')"
proof -
  let ?s = "variable_scope sc ''decoder'' r"
  let ?s' = "variable_scope sc' ''decoder'' (Some True)"
  have ps: "path ?s' = path ?s" using assms(3) by simp
  have ru: "reusing ?s'" by simp
  from assms(1) obtain vs1 x1 vs2 x2 vs3 x3 vs4 x4 x5 where
    l: "layer_call tf ?s vs Deconv2d ''dec-deconv2d-1''
       (\<lambda>ps v. deconv2d tf ps v (df_dim c * 2) 4 2) x = Inr (vs1, x1)"
    "layer_call tf ?s vs1 BatchNorm ''dec-bn-1''
       (\<lambda>ps v. batch_norm tf ps v None) x1 = Inr (vs2, x2)"
    "layer_call tf ?s vs2 Deconv2d ''dec-deconv2d-2''
       (\<lambda>ps v. deconv2d tf ps v (df_dim c) 4 2) (leaky_relu \<circ> x2) = Inr (vs3, x3)"
    "layer_call tf ?s vs3 BatchNorm ''dec-bn-2''
       (\<lambda>ps v. batch_norm tf ps v None) x3 = Inr (vs4, x4)"
    "layer_call tf ?s vs4 Deconv2d ''dec-deconv2d-3''
       (\<lambda>ps v. deconv2d tf ps v (channel c) 4 2) (leaky_relu \<circ> x4) = Inr (vs', x5)"
    and out: "out = sigmoid \<circ> x5"
    by (rule decoderE) blast
  note m = l [THEN layer_call_vars(1)]
  have s: "set vs1 \<subseteq> set ws" "set vs2 \<subseteq> set ws" "set vs3 \<subseteq> set ws" "set vs4 \<subseteq> set ws"
    using m assms(2) by blast+
  note r = layer_call_reuse [OF l(1) s(1) ps ru] layer_call_reuse [OF l(2) s(2) ps ru]
    layer_call_reuse [OF l(3) s(3) ps ru] layer_call_reuse [OF l(4) s(4) ps ru]
    layer_call_reuse [OF l(5) assms(2) ps ru]
  note y = l [THEN layer_call_vars(3)]
  show ?thesis
    by (simp add: decoder_def Let_def bindE_def t_deconv2d_def t_batch_norm_def r out y)
qed

lemma generatorE:
  assumes "generator tf c sc0 vs0 z reuse is_train = Inr (vs7, out)"
  obtains vs1 x1 vs2 x2 vs3 x4 vs4 x5 vs5 x6 vs6 x7 x8 where
    "fc_unit c = 4 * 4 * gf_dim c div 2"
    "layer_call tf (variable_scope sc0 ''generator'' reuse) vs0 Dense ''gen-fc-1''
       (\<lambda>ps v. dense tf ps v (fc_unit c)) z = Inr (vs1, x1)"
    "layer_call tf (variable_scope sc0 ''generator'' reuse) vs1 BatchNorm ''gen-bn-1''
       (\<lambda>ps v. batch_norm tf ps v (Some is_train)) x1 = Inr (vs2, x2)"
    "layer_call tf (variable_scope sc0 ''generator'' reuse) vs2 Deconv2d ''gen-deconv2d-1''
       (\<lambda>ps v. deconv2d tf ps v (gf_dim c * 4) 4 2)
       (\<lambda>e. reshape (leaky_relu (x2 e)) [- 1, 4, 4, gf_dim c div 2]) = Inr (vs3, x4)"
    "layer_call tf (variable_scope sc0 ''generator'' reuse) vs3 BatchNorm ''gen-bn-2''
       (\<lambda>ps v. batch_norm tf ps v (Some is_train)) x4 = Inr (vs4, x5)"
    "layer_call tf (variable_scope sc0 ''generator'' reuse) vs4 Deconv2d ''gen-deconv2d-2''
       (\<lambda>ps v. deconv2d tf ps v (gf_dim c * 2) 4 2) (leaky_relu \<circ> x5) = Inr (vs5, x6)"
    "layer_call tf (variable_scope sc0 ''generator'' reuse) vs5 BatchNorm ''gen-bn-3''
       (\<lambda>ps v. batch_norm tf ps v (Some is_train)) x6 = Inr (vs6, x7)"
    "layer_call tf (variable_scope sc0 ''generator'' reuse) vs6 Deconv2d ''gen-deconv2d-3''
       (\<lambda>ps v. deconv2d tf ps v (channel c) 4 2) (leaky_relu \<circ> x7) = Inr (vs7, x8)"
    "out = tf_tanh \<circ> x8"
  using assms
  by (auto simp: generator_def Let_def bindE_Inr_iff t_dense_def t_deconv2d_def t_batch_norm_def
      split: if_splits)

lemma generator_vars:
  assumes "generator tf c sc vs z r t = Inr (vs', out)"
  shows "set vs \<subseteq> set vs'"
    and "\<forall>n\<in>set vs'. n \<in> set vs \<or> startswith n (path sc @ ''generator/'')"
proof -
  let ?s = "variable_scope sc ''generator'' r"
  from assms obtain vs1 x1 vs2 x2 vs3 x4 vs4 x5 vs5 x6 vs6 x7 x8 where
    l: "layer_call tf ?s vs Dense ''gen-fc-1''
       (\<lambda>ps v. dense tf ps v (fc_unit c)) z = Inr (vs1, x1)"
    "layer_call tf ?s vs1 BatchNorm ''gen-bn-1''
       (\<lambda>ps v. batch_norm tf ps v (Some t)) x1 = Inr (vs2, x2)"
    "layer_call tf ?s vs2 Deconv2d ''gen-deconv2d-1''
       (\<lambda>ps v. deconv2d tf ps v (gf_dim c * 4) 4 2)
       (\<lambda>e. reshape (leaky_relu (x2 e)) [- 1, 4, 4, gf_dim c div 2]) = Inr (vs3, x4)"
    "layer_call tf ?s vs3 BatchNorm ''gen-bn-2''
       (\<lambda>ps v. batch_norm tf ps v (Some t)) x4 = Inr (vs4, x5)"
    "layer_call tf ?s vs4 Deconv2d ''gen-deconv2d-2''
       (\<lambda>ps v. deconv2d tf ps v (gf_dim c * 2) 4 2) (leaky_relu \<circ> x5) = Inr (vs5, x6)"
    "layer_call tf ?s vs5 BatchNorm ''gen-bn-3''
       (\<lambda>ps v. batch_norm tf ps v (Some t)) x6 = Inr (vs6, x7)"
    "layer_call tf ?s vs6 Deconv2d ''gen-deconv2d-3''
       (\<lambda>ps v. deconv2d tf ps v (channel c) 4 2) (leaky_relu \<circ> x7) = Inr (vs', x8)"
    by (rule generatorE) blast
  note m = l [THEN layer_call_vars(1)] and p = l [THEN layer_call_vars(2), simplified]
  show "set vs \<subseteq> set vs'" using m by blast
  show "\<forall>n\<in>set vs'. n \<in> set vs \<or> startswith n (path sc @ ''generator/'')"
    using p by blast
qed

lemma discriminatorE:
  assumes "discriminator tf c sc vs x r = Inr (vs2, emb, dec)"
  obtains vs1 where
    "encoder tf c (variable_scope sc ''discriminator'' r) vs x r = Inr (vs1, emb)"
    "decoder tf c (variable_scope sc ''discriminator'' r) vs1 emb r = Inr (vs2, dec)"
  using assms by (auto simp: discriminator_def Let_def bindE_Inr_iff)

lemma discriminator_vars:
  assumes "discriminator tf c sc vs x r = Inr (vs', emb, dec)"
  shows "set vs \<subseteq> set vs'"
    and "\<forall>n\<in>set vs'. n \<in> set vs \<or> startswith n (path sc @ ''discriminator/'')"
proof -
  let ?s = "variable_scope sc ''discriminator'' r"
  from assms obtain vs1 where
    en: "encoder tf c ?s vs x r = Inr (vs1, emb)" and de: "decoder tf c ?s vs1 emb r = Inr (vs', dec)"
    by (rule discriminatorE)
  have "startswith n (path sc @ ''discriminator/'')" if "startswith n (path ?s @ q)" for n q
    using that startswith_append [of n "path sc @ ''discriminator/''" q] by simp
  then show "\<forall>n\<in>set vs'. n \<in> set vs \<or> startswith n (path sc @ ''discriminator/'')"
    using encoder_vars(2) [OF en] decoder_vars(2) [OF de] by blast
  show "set vs \<subseteq> set vs'"
    using encoder_vars(1) [OF en] decoder_vars(1) [OF de] by blast
qed

lemma discriminator_reuse:
  assumes "discriminator tf c sc vs x r = Inr (vs', emb, dec)" and "set vs' \<subseteq> set ws"
  shows "\<exists>emb' dec'. discriminator tf c sc ws y (Some True) = Inr (ws, emb', dec') \<and>
           (\<forall>e e'. params e = params e' \<longrightarrow> x e = y e' \<longrightarrow> emb e = emb' e' \<and> dec e = dec' e')"
proof -
  let ?s = "variable_scope sc ''discriminator'' r"
  let ?s' = "variable_scope sc ''discriminator'' (Some True)"
  from assms(1) obtain vs1 where
    en: "encoder tf c ?s vs x r = Inr (vs1, emb)" and de: "decoder tf c ?s vs1 emb r = Inr (vs', dec)"
    by (rule discriminatorE)
  have ps: "path ?s' = path ?s" by simp
  have "set vs1 \<subseteq> set ws"
    using decoder_vars(1) [OF de] assms(2) by blast
  from encoder_reuse [OF en this ps] obtain emb' where
    en': "encoder tf c ?s' ws y (Some True) = Inr (ws, emb')"
    and ee: "\<forall>e e'. params e = params e' \<longrightarrow> x e = y e' \<longrightarrow> emb e = emb' e'"
    by blast
  from decoder_reuse [OF de assms(2) ps] obtain dec' where
    de': "decoder tf c ?s' ws emb' (Some True) = Inr (ws, dec')"
    and dd: "\<forall>e e'. params e = params e' \<longrightarrow> emb e = emb' e' \<longrightarrow> dec e = dec' e'"
    by blast
  have "discriminator tf c sc ws y (Some True) = Inr (ws, emb', dec')"
    by (simp add: discriminator_def Let_def bindE_def en' de')
  with ee dd show ?thesis by blast
qed

subsection \<open>Scalars and reductions\<close>

lemma fle_Num_iff: "fle (Num a) v \<longleftrightarrow> (\<exists>b. v = Num b \<and> a \<le> b)"
  by (cases v) simp_all

lemma flt_iff: "flt u v \<longleftrightarrow> (\<exists>a b. u = Num a \<and> v = Num b \<and> a < b)"
  by (cases u; cases v) simp_all

lemma fadd_Num_0 [simp]: "fadd v (Num 0) = v"
  by (cases v) simp_all

lemma maximum_0_nonneg: "maximum (Num 0) v = NaN \<or> fle (Num 0) (maximum (Num 0) v)"
  by (cases v) simp_all

lemma fadd_nonneg:
  "u = NaN \<or> fle (Num 0) u \<Longrightarrow> v = NaN \<or> fle (Num 0) v \<Longrightarrow>
     fadd u v = NaN \<or> fle (Num 0) (fadd u v)"
  by (cases u; cases v) simp_all

lemma fadd_nonneg_ge:
  "v = NaN \<or> fle (Num 0) v \<Longrightarrow> fadd u v \<noteq> NaN \<Longrightarrow> fle u (fadd u v)"
  by (cases u; cases v) simp_all

lemma square_nonneg: "fmul v v = NaN \<or> fle (Num 0) (fmul v v)"
  by (cases v) simp_all

lemma reduce_sum_nonneg:
  "\<forall>v\<in>set x. v = NaN \<or> fle (Num 0) v \<Longrightarrow> reduce_sum x = NaN \<or> fle (Num 0) (reduce_sum x)"
  by (induction x) (simp_all add: fadd_nonneg)

lemma reduce_mean_nonneg:
  assumes "\<forall>v\<in>set x. v = NaN \<or> fle (Num 0) v"
  shows "reduce_mean x = NaN \<or> fle (Num 0) (reduce_mean x)"
  using reduce_sum_nonneg [OF assms]
  by (cases "reduce_sum x") (simp_all add: reduce_mean_def)

lemma mse_loss_nonneg: "mse_loss x y = NaN \<or> fle (Num 0) (mse_loss x y)"
  unfolding mse_loss_def by (rule reduce_mean_nonneg) (clarsimp, use square_nonneg in blast)

lemma reduce_sum_Num:
  "NaN \<notin> set x \<Longrightarrow> \<exists>s. reduce_sum x = Num s"
proof (induction x)
  case Nil
  then show ?case by simp
next
  case (Cons v x)
  then obtain s where "reduce_sum x = Num s" by auto
  moreover from Cons.prems obtain a where "v = Num a" by (cases v) auto
  ultimately show ?case by simp
qed

lemma mse_loss_Num:
  assumes "x \<noteq> []" and "y \<noteq> []" and "NaN \<notin> set x" and "NaN \<notin> set y"
  shows "mse_loss x y \<noteq> NaN"
proof -
  let ?d = "map2 (\<lambda>a b. fmul (fsub a b) (fsub a b)) x y"
  have "fmul (fsub a b) (fsub a b) \<noteq> NaN" if "(a, b) \<in> set (zip x y)" for a b
  proof -
    from that have "a \<in> set x" and "b \<in> set y"
      by (auto dest: set_zip_leftD set_zip_rightD)
    with assms(3,4) obtain r s where "a = Num r" "b = Num s"
      by (cases a; cases b) auto
    then show ?thesis by simp
  qed
  then have "NaN \<notin> set ?d" by auto metis
  then obtain s where "reduce_sum ?d = Num s"
    using reduce_sum_Num by blast
  moreover from assms(1,2) have "?d \<noteq> []"
    by (cases x; cases y) simp_all
  ultimately show ?thesis
    by (simp add: mse_loss_def reduce_mean_def)
qed

subsection \<open>The built model\<close>

lemma build_maganE:
  assumes "build_magan tf c vs0 = Inr M"
  obtains vs1 gen vs2 gen_test vs3 e_real d_real vs4 e_fake d_fake where
    "generator tf c root_scope vs0 z_noise None True = Inr (vs1, gen)"
    "generator tf c root_scope vs1 z_noise (Some True) False = Inr (vs2, gen_test)"
    "discriminator tf c root_scope vs2 x_image None = Inr (vs3, e_real, d_real)"
    "discriminator tf c root_scope vs3 gen (Some True) = Inr (vs4, e_fake, d_fake)"
    "g M = gen" "g_test M = gen_test"
    "d_real_loss M = (\<lambda>e. mse_loss (x_image e) (d_real e))"
    "d_fake_loss M = (\<lambda>e. mse_loss (gen e) (d_fake e))"
    "d_loss M = (\<lambda>e. fadd (d_real_loss M e) (maximum (Num 0) (fsub (margin e) (d_fake_loss M e))))"
    "g_loss M = d_fake_loss M"
    "t_vars M = vs4"
    "d_params M = filter (\<lambda>v. startswith v ''d'') vs4"
    "g_params M = filter (\<lambda>v. startswith v ''g'') vs4"
    "d_real_op M = minimize tf (d_lr c) (beta1 c) (beta2 c) (d_real_loss M) (d_params M)"
    "d_op M = minimize tf (d_lr c) (beta1 c) (beta2 c) (d_loss M) (d_params M)"
    "g_op M = minimize tf (g_lr c) (beta1 c) (beta2 c) (g_loss M) (g_params M)"
  using assms by (auto simp: build_magan_def bindE_Inr_iff Let_def)

lemma build_magan_loss_eqs:
  assumes "build_magan tf c vs0 = Inr M"
  shows "d_loss M e = fadd (d_real_loss M e) (maximum (Num 0) (fsub (margin e) (d_fake_loss M e)))"
    and "g_loss M = d_fake_loss M"
    and "d_real_loss M e = NaN \<or> fle (Num 0) (d_real_loss M e)"
    and "d_fake_loss M e = NaN \<or> fle (Num 0) (d_fake_loss M e)"
proof -
  from assms obtain gen d_real d_fake where
    l: "d_real_loss M = (\<lambda>e. mse_loss (x_image e) (d_real e))"
    "d_fake_loss M = (\<lambda>e. mse_loss (gen e) (d_fake e))"
    "d_loss M = (\<lambda>e. fadd (d_real_loss M e) (maximum (Num 0) (fsub (margin e) (d_fake_loss M e))))"
    "g_loss M = d_fake_loss M"
    by (rule build_maganE) blast
  show "d_loss M e = fadd (d_real_loss M e) (maximum (Num 0) (fsub (margin e) (d_fake_loss M e)))"
    using l(3) by (rule fun_cong)
  show "g_loss M = d_fake_loss M" by (rule l(4))
  show "d_real_loss M e = NaN \<or> fle (Num 0) (d_real_loss M e)"
    by (simp add: l(1) mse_loss_nonneg)
  show "d_fake_loss M e = NaN \<or> fle (Num 0) (d_fake_loss M e)"
    by (simp add: l(2) mse_loss_nonneg)
qed

lemma path_root_scope [simp]: "path root_scope = []"
  by (simp add: root_scope_def)

lemma minimize_frame: "n \<notin> set var_list \<Longrightarrow> minimize tf lr b1 b2 loss var_list e n = params e n"
  by (simp add: minimize_def)

lemma sigmoid_range: "v \<in> set (sigmoid x) \<Longrightarrow> v = NaN \<or> (fle (Num 0) v \<and> fle v (Num 1))"
proof -
  have "0 \<le> 1 / (1 + exp (- u)) \<and> 1 / (1 + exp (- u)) \<le> 1" for u :: real
  proof -
    have "0 < exp (- u)" by simp
    then show ?thesis by (simp add: add_pos_pos less_imp_le)
  qed
  then show "v \<in> set (sigmoid x) \<Longrightarrow> v = NaN \<or> (fle (Num 0) v \<and> fle v (Num 1))"
    by (auto simp: sigmoid_def split: f32.splits)
qed

lemma sigmoid_NaN: "NaN \<in> set (sigmoid x) \<longleftrightarrow> NaN \<in> set x"
  by (auto simp: sigmoid_def image_iff split: f32.splits) (metis f32.exhaust)

lemma tf_tanh_range: "v \<in> set (tf_tanh x) \<Longrightarrow> v = NaN \<or> (fle (Num (- 1)) v \<and> fle v (Num 1))"
  using tanh_real_lt_1 tanh_real_gt_neg1 by (auto simp: tf_tanh_def less_imp_le split: f32.splits)

lemma tf_tanh_NaN: "NaN \<in> set (tf_tanh x) \<longleftrightarrow> NaN \<in> set x"
  by (auto simp: tf_tanh_def image_iff split: f32.splits) (metis f32.exhaust)

lemma build_magan_vars:
  assumes "build_magan tf c vs0 = Inr M"
  shows "\<forall>n\<in>set (t_vars M). n \<in> set vs0 \<or> startswith n ''generator/'' \<or> startswith n ''discriminator/''"
proof -
  from assms obtain vs1 gen vs2 gen_test vs3 e_real d_real vs4 e_fake d_fake where
    b: "generator tf c root_scope vs0 z_noise None True = Inr (vs1, gen)"
    "generator tf c root_scope vs1 z_noise (Some True) False = Inr (vs2, gen_test)"
    "discriminator tf c root_scope vs2 x_image None = Inr (vs3, e_real, d_real)"
    "discriminator tf c root_scope vs3 gen (Some True) = Inr (vs4, e_fake, d_fake)"
    and t: "t_vars M = vs4"
    by (rule build_maganE) blast
  note generator_vars(2) [OF b(1), simplified] generator_vars(2) [OF b(2), simplified]
    discriminator_vars(2) [OF b(3), simplified] discriminator_vars(2) [OF b(4), simplified]
  then show ?thesis unfolding t by blast
qed

subsection \<open>The concrete instance builds\<close>

lemmas toy_defs = MAGAN_init_def toy_tf_def root_scope_def variable_scope_def
  t_dense_def t_batch_norm_def t_deconv2d_def t_conv2d_def layer_call_def var_names_def
  get_variables_def bindE_def

lemma toy_generator:
  "\<exists>n. generator toy_tf MAGAN_init root_scope [] x None t = Inr (toy_g_vars, n)"
  by (simp add: generator_def toy_defs toy_g_vars_def)

lemma toy_generator_reuse:
  "\<exists>n. generator toy_tf MAGAN_init root_scope toy_g_vars x (Some True) t = Inr (toy_g_vars, n)"
  by (simp add: generator_def toy_defs toy_g_vars_def)

lemma toy_discriminator:
  "\<exists>a b. discriminator toy_tf MAGAN_init root_scope toy_g_vars x None =
     Inr (toy_g_vars @ toy_d_vars, a, b)"
  by (simp add: discriminator_def encoder_def decoder_def toy_defs toy_g_vars_def toy_d_vars_def)

lemma toy_build: "build_magan toy_tf MAGAN_init [] = Inr toy_magan"
proof -
  obtain gen where 1:
    "generator toy_tf MAGAN_init root_scope [] z_noise None True = Inr (toy_g_vars, gen)"
    using toy_generator by blast
  obtain gt where 2:
    "generator toy_tf MAGAN_init root_scope toy_g_vars z_noise (Some True) False = Inr (toy_g_vars, gt)"
    using toy_generator_reuse by blast
  obtain a b where 3:
    "discriminator toy_tf MAGAN_init root_scope toy_g_vars x_image None =
       Inr (toy_g_vars @ toy_d_vars, a, b)"
    using toy_discriminator by blast
  obtain a' b' where 4:
    "discriminator toy_tf MAGAN_init root_scope (toy_g_vars @ toy_d_vars) gen (Some True) =
       Inr (toy_g_vars @ toy_d_vars, a', b')"
    using discriminator_reuse [OF 3 subset_refl] by blast
  have "\<not> isl (build_magan toy_tf MAGAN_init [])"
    by (simp add: build_magan_def bindE_def 1 2 3 4 Let_def)
  then show ?thesis
    by (simp add: toy_magan_def)
qed

subsection \<open>The assertion of the generator\<close>

lemma bindE_Inl_iff: "bindE m f = Inl e \<longleftrightarrow> m = Inl e \<or> (\<exists>v. m = Inr v \<and> f v = Inl e)"
  by (cases m) (simp_all add: bindE_def)

lemma layer_call_no_assert: "layer_call tf sc vs l name f x \<noteq> Inl AssertionError"
  by (simp add: layer_call_def bindE_Inl_iff get_variables_def)

lemma generator_assert_iff:
  "generator tf c sc vs z reuse is_train = Inl AssertionError \<longleftrightarrow>
     fc_unit c \<noteq> 4 * 4 * gf_dim c div 2"
  by (auto simp: generator_def Let_def bindE_Inl_iff t_dense_def t_deconv2d_def t_batch_norm_def
      layer_call_no_assert)

lemma assert_even_gf_dim:
  "even (gf_dim c) \<Longrightarrow> 4 * 4 * gf_dim c div 2 = 4 * 4 * (gf_dim c div 2)"
  by (elim evenE) simp

subsection \<open>Values of the concrete instance\<close>

lemma toy_env_simps:
  "params toy_env = (\<lambda>n. [Num 0])" "x_image toy_env = [Num 1, Num 0]"
  "z_noise toy_env = [Num 0, Num 0]" "margin toy_env = Num (1 / 8)"
  by (simp_all add: toy_env_def)

lemma nan_env_simps:
  "params nan_margin_env = (\<lambda>n. [Num 0])" "x_image nan_margin_env = [Num 1, Num 0]"
  "z_noise nan_margin_env = [Num 0, Num 0]" "margin nan_margin_env = NaN"
  "params nan_image_env = (\<lambda>n. [Num 0])" "x_image nan_image_env = [NaN, Num 0]"
  "z_noise nan_image_env = [Num 0, Num 0]" "margin nan_image_env = Num (1 / 8)"
  "params nan_noise_env = (\<lambda>n. [Num 0])" "x_image nan_noise_env = [Num 1, Num 0]"
  "z_noise nan_noise_env = [NaN, Num 0]" "margin nan_noise_env = Num (1 / 8)"
  by (simp_all add: nan_margin_env_def nan_image_env_def nan_noise_env_def toy_env_def)

lemma toy_tf_simps:
  "conv2d toy_tf ps x f k s = map (\<lambda>v. fmul (reduce_sum (map reduce_sum ps)) v) x"
  "deconv2d toy_tf ps x f k s = map (\<lambda>v. fmul (reduce_sum (map reduce_sum ps)) v) x"
  "batch_norm toy_tf ps x t = map (\<lambda>v. fadd v (reduce_sum (map reduce_sum ps))) x"
  "dense toy_tf ps x u = map (\<lambda>v. fmul (reduce_sum (map reduce_sum ps)) v) x"
  "adam toy_tf lr b1 b2 loss n e = map (\<lambda>v. fsub v (fmul (Num lr) (loss e))) (params e n)"
  by (simp_all add: toy_tf_def)

lemma reduce_sum_zeros: "reduce_sum (map (\<lambda>n. Num 0) ns) = Num 0"
  by (induction ns) simp_all

lemma toy_params_zero:
  "params e = (\<lambda>n. [Num 0]) \<Longrightarrow> reduce_sum (map (reduce_sum \<circ> params e) ns) = Num 0"
  by (simp add: o_def reduce_sum_zeros)

lemma fmul_0_0 [simp]: "fmul (Num 0) (fmul (Num 0) a) = fmul (Num 0) a"
  by (cases a) simp_all

lemma leaky_relu_0:
  "leaky_relu [fmul (Num 0) a, fmul (Num 0) b] = [fmul (Num 0) a, fmul (Num 0) b]"
  by (cases a; cases b) (simp_all add: leaky_relu_def)

lemma tf_tanh_0:
  "tf_tanh [fmul (Num 0) a, fmul (Num 0) b] = [fmul (Num 0) a, fmul (Num 0) b]"
  by (cases a; cases b) (simp_all add: tf_tanh_def)

lemma sigmoid_0:
  "sigmoid [fmul (Num 0) a, fmul (Num 0) b] =
     [fadd (fmul (Num 0) a) (Num (1 / 2)), fadd (fmul (Num 0) b) (Num (1 / 2))]"
  by (cases a; cases b) (simp_all add: sigmoid_def)

lemma toy_generator_value:
  assumes "generator toy_tf c sc vs z r t = Inr (vs', out)"
    and "params e = (\<lambda>n. [Num 0])" and "z e = [a, b]"
  shows "out e = [fmul (Num 0) a, fmul (Num 0) b]"
proof -
  let ?s = "variable_scope sc ''generator'' r"
  from assms(1) obtain vs1 x1 vs2 x2 vs3 x4 vs4 x5 vs5 x6 vs6 x7 x8 where
    l: "layer_call toy_tf ?s vs Dense ''gen-fc-1''
       (\<lambda>ps v. dense toy_tf ps v (fc_unit c)) z = Inr (vs1, x1)"
    "layer_call toy_tf ?s vs1 BatchNorm ''gen-bn-1''
       (\<lambda>ps v. batch_norm toy_tf ps v (Some t)) x1 = Inr (vs2, x2)"
    "layer_call toy_tf ?s vs2 Deconv2d ''gen-deconv2d-1''
       (\<lambda>ps v. deconv2d toy_tf ps v (gf_dim c * 4) 4 2)
       (\<lambda>e. reshape (leaky_relu (x2 e)) [- 1, 4, 4, gf_dim c div 2]) = Inr (vs3, x4)"
    "layer_call toy_tf ?s vs3 BatchNorm ''gen-bn-2''
       (\<lambda>ps v. batch_norm toy_tf ps v (Some t)) x4 = Inr (vs4, x5)"
    "layer_call toy_tf ?s vs4 Deconv2d ''gen-deconv2d-2''
       (\<lambda>ps v. deconv2d toy_tf ps v (gf_dim c * 2) 4 2) (leaky_relu \<circ> x5) = Inr (vs5, x6)"
    "layer_call toy_tf ?s vs5 BatchNorm ''gen-bn-3''
       (\<lambda>ps v. batch_norm toy_tf ps v (Some t)) x6 = Inr (vs6, x7)"
    "layer_call toy_tf ?s vs6 Deconv2d ''gen-deconv2d-3''
       (\<lambda>ps v. deconv2d toy_tf ps v (channel c) 4 2) (leaky_relu \<circ> x7) = Inr (vs', x8)"
    and out: "out = tf_tanh \<circ> x8"
    by (rule generatorE) blast
  note y = l [THEN layer_call_vars(3)]
  note z = toy_params_zero [OF assms(2)]
  let ?r = "[fmul (Num 0) a, fmul (Num 0) b]"
  have 1: "x1 e = ?r"
    by (simp add: y(1) toy_tf_simps z assms(3))
  have 2: "x2 e = ?r"
    by (simp add: y(2) toy_tf_simps z 1)
  have 3: "x4 e = ?r"
    by (simp add: y(3) toy_tf_simps z 2 leaky_relu_0 reshape_def)
  have 4: "x5 e = ?r"
    by (simp add: y(4) toy_tf_simps z 3)
  have 5: "x6 e = ?r"
    by (simp add: y(5) toy_tf_simps z 4 leaky_relu_0)
  have 6: "x7 e = ?r"
    by (simp add: y(6) toy_tf_simps z 5)
  have 7: "x8 e = ?r"
    by (simp add: y(7) toy_tf_simps z 6 leaky_relu_0)
  show ?thesis
    by (simp add: out 7 tf_tanh_0)
qed

lemma toy_encoder_value:
  assumes "encoder toy_tf c sc vs x r = Inr (vs', out)"
    and "params e = (\<lambda>n. [Num 0])" and "x e = [a, b]"
  shows "out e = [fmul (Num 0) a, fmul (Num 0) b]"
proof -
  let ?t = "variable_scope sc ''encoder'' r"
  from assms(1) obtain ws1 y1 ws2 y2 ws3 y3 ws4 y4 y5 where
    k: "layer_call toy_tf ?t vs Conv2d ''enc-conv2d-1''
       (\<lambda>ps v. conv2d toy_tf ps v (df_dim c) 4 2) x = Inr (ws1, y1)"
    "layer_call toy_tf ?t ws1 Conv2d ''enc-conv2d-2''
       (\<lambda>ps v. conv2d toy_tf ps v (df_dim c * 2) 4 2) (leaky_relu \<circ> y1) = Inr (ws2, y2)"
    "layer_call toy_tf ?t ws2 BatchNorm ''enc-bn-1''
       (\<lambda>ps v. batch_norm toy_tf ps v None) y2 = Inr (ws3, y3)"
    "layer_call toy_tf ?t ws3 Conv2d ''enc-conv2d-3''
       (\<lambda>ps v. conv2d toy_tf ps v (df_dim c * 4) 4 2) (leaky_relu \<circ> y3) = Inr (ws4, y4)"
    "layer_call toy_tf ?t ws4 BatchNorm ''enc-bn-2''
       (\<lambda>ps v. batch_norm toy_tf ps v None) y4 = Inr (vs', y5)"
    and out: "out = leaky_relu \<circ> y5"
    by (rule encoderE) blast
  note y = k [THEN layer_call_vars(3)]
  note z = toy_params_zero [OF assms(2)]
  let ?r = "[fmul (Num 0) a, fmul (Num 0) b]"
  have 1: "y1 e = ?r"
    by (simp add: y(1) toy_tf_simps z assms(3))
  have 2: "y2 e = ?r"
    by (simp add: y(2) toy_tf_simps z 1 leaky_relu_0)
  have 3: "y3 e = ?r"
    by (simp add: y(3) toy_tf_simps z 2)
  have 4: "y4 e = ?r"
    by (simp add: y(4) toy_tf_simps z 3 leaky_relu_0)
  have 5: "y5 e = ?r"
    by (simp add: y(5) toy_tf_simps z 4)
  show ?thesis
    by (simp add: out 5 leaky_relu_0)
qed

lemma toy_decoder_value:
  assumes "decoder toy_tf c sc vs x r = Inr (vs', out)"
    and "params e = (\<lambda>n. [Num 0])" and "x e = [a, b]"
  shows "out e = [fadd (fmul (Num 0) a) (Num (1 / 2)), fadd (fmul (Num 0) b) (Num (1 / 2))]"
proof -
  let ?u = "variable_scope sc ''decoder'' r"
  from assms(1) obtain vs1 x1 vs2 x2 vs3 x3 vs4 x4 x5 where
    l: "layer_call toy_tf ?u vs Deconv2d ''dec-deconv2d-1''
       (\<lambda>ps v. deconv2d toy_tf ps v (df_dim c * 2) 4 2) x = Inr (vs1, x1)"
    "layer_call toy_tf ?u vs1 BatchNorm ''dec-bn-1''
       (\<lambda>ps v. batch_norm toy_tf ps v None) x1 = Inr (vs2, x2)"
    "layer_call toy_tf ?u vs2 Deconv2d ''dec-deconv2d-2''
       (\<lambda>ps v. deconv2d toy_tf ps v (df_dim c) 4 2) (leaky_relu \<circ> x2) = Inr (vs3, x3)"
    "layer_call toy_tf ?u vs3 BatchNorm ''dec-bn-2''
       (\<lambda>ps v. batch_norm toy_tf ps v None) x3 = Inr (vs4, x4)"
    "layer_call toy_tf ?u vs4 Deconv2d ''dec-deconv2d-3''
       (\<lambda>ps v. deconv2d toy_tf ps v (channel c) 4 2) (leaky_relu \<circ> x4) = Inr (vs', x5)"
    and out: "out = sigmoid \<circ> x5"
    by (rule decoderE) blast
  note w = l [THEN layer_call_vars(3)]
  note z = toy_params_zero [OF assms(2)]
  let ?r = "[fmul (Num 0) a, fmul (Num 0) b]"
  have 1: "x1 e = ?r"
    by (simp add: w(1) toy_tf_simps z assms(3))
  have 2: "x2 e = ?r"
    by (simp add: w(2) toy_tf_simps z 1)
  have 3: "x3 e = ?r"
    by (simp add: w(3) toy_tf_simps z 2 leaky_relu_0)
  have 4: "x4 e = ?r"
    by (simp add: w(4) toy_tf_simps z 3)
  have 5: "x5 e = ?r"
    by (simp add: w(5) toy_tf_simps z 4 leaky_relu_0)
  show ?thesis
    by (simp add: out 5 sigmoid_0)
qed

lemma toy_discriminator_value:
  assumes "discriminator toy_tf c sc vs x r = Inr (vs', emb, dec)"
    and "params e = (\<lambda>n. [Num 0])" and "x e = [a, b]"
  shows "dec e = [fadd (fmul (Num 0) a) (Num (1 / 2)), fadd (fmul (Num 0) b) (Num (1 / 2))]"
proof -
  let ?s = "variable_scope sc ''discriminator'' r"
  from assms(1) obtain vs0 where
    en: "encoder toy_tf c ?s vs x r = Inr (vs0, emb)"
    and de: "decoder toy_tf c ?s vs0 emb r = Inr (vs', dec)"
    by (rule discriminatorE)
  from toy_decoder_value [OF de assms(2) toy_encoder_value [OF en assms(2,3)]]
  show ?thesis by simp
qed

lemma toy_magan_parts:
  obtains e_real d_real e_fake d_fake where
    "generator toy_tf MAGAN_init root_scope [] z_noise None True = Inr (toy_g_vars, g toy_magan)"
    "discriminator toy_tf MAGAN_init root_scope toy_g_vars x_image None =
       Inr (toy_g_vars @ toy_d_vars, e_real, d_real)"
    "discriminator toy_tf MAGAN_init root_scope (toy_g_vars @ toy_d_vars) (g toy_magan) (Some True) =
       Inr (toy_g_vars @ toy_d_vars, e_fake, d_fake)"
    "d_real_loss toy_magan = (\<lambda>e. mse_loss (x_image e) (d_real e))"
    "d_fake_loss toy_magan = (\<lambda>e. mse_loss (g toy_magan e) (d_fake e))"
    "t_vars toy_magan = toy_g_vars @ toy_d_vars"
proof -
  from toy_build obtain vs1 gen vs2 gen_test vs3 e_real d_real vs4 e_fake d_fake where
    b: "generator toy_tf MAGAN_init root_scope [] z_noise None True = Inr (vs1, gen)"
    "generator toy_tf MAGAN_init root_scope vs1 z_noise (Some True) False = Inr (vs2, gen_test)"
    "discriminator toy_tf MAGAN_init root_scope vs2 x_image None = Inr (vs3, e_real, d_real)"
    "discriminator toy_tf MAGAN_init root_scope vs3 gen (Some True) = Inr (vs4, e_fake, d_fake)"
    and m: "g toy_magan = gen"
    "d_real_loss toy_magan = (\<lambda>e. mse_loss (x_image e) (d_real e))"
    "d_fake_loss toy_magan = (\<lambda>e. mse_loss (gen e) (d_fake e))"
    "t_vars toy_magan = vs4"
    by (rule build_maganE) blast
  from b(1) toy_generator [of z_noise True] have 1: "vs1 = toy_g_vars" by auto
  from b(2) toy_generator_reuse [of z_noise False] have 2: "vs2 = toy_g_vars" by (auto simp: 1)
  from b(3) toy_discriminator [of x_image] have 3: "vs3 = toy_g_vars @ toy_d_vars" by (auto simp: 2)
  from discriminator_reuse [OF b(3) subset_refl, of gen] b(4) have 4: "vs4 = vs3" by auto
  from b m that show ?thesis by (simp add: 1 2 3 4)
qed

lemma toy_values:
  assumes "params e = (\<lambda>n. [Num 0])" and "z_noise e = [a, b]" and "x_image e = [p, q]"
  shows "g toy_magan e = [fmul (Num 0) a, fmul (Num 0) b]"
    and "d_real_loss toy_magan e =
      mse_loss [p, q] [fadd (fmul (Num 0) p) (Num (1 / 2)), fadd (fmul (Num 0) q) (Num (1 / 2))]"
    and "d_fake_loss toy_magan e =
      mse_loss [fmul (Num 0) a, fmul (Num 0) b]
        [fadd (fmul (Num 0) a) (Num (1 / 2)), fadd (fmul (Num 0) b) (Num (1 / 2))]"
proof -
  obtain e_real d_real e_fake d_fake where
    p: "generator toy_tf MAGAN_init root_scope [] z_noise None True = Inr (toy_g_vars, g toy_magan)"
    "discriminator toy_tf MAGAN_init root_scope toy_g_vars x_image None =
       Inr (toy_g_vars @ toy_d_vars, e_real, d_real)"
    "discriminator toy_tf MAGAN_init root_scope (toy_g_vars @ toy_d_vars) (g toy_magan) (Some True) =
       Inr (toy_g_vars @ toy_d_vars, e_fake, d_fake)"
    and l: "d_real_loss toy_magan = (\<lambda>e. mse_loss (x_image e) (d_real e))"
    "d_fake_loss toy_magan = (\<lambda>e. mse_loss (g toy_magan e) (d_fake e))"
    by (rule toy_magan_parts)
  show gv: "g toy_magan e = [fmul (Num 0) a, fmul (Num 0) b]"
    by (rule toy_generator_value [OF p(1) assms(1,2)])
  from toy_discriminator_value [OF p(2) assms(1,3)]
  show "d_real_loss toy_magan e =
      mse_loss [p, q] [fadd (fmul (Num 0) p) (Num (1 / 2)), fadd (fmul (Num 0) q) (Num (1 / 2))]"
    by (simp add: l assms(3))
  from toy_discriminator_value [OF p(3) assms(1) gv]
  show "d_fake_loss toy_magan e =
      mse_loss [fmul (Num 0) a, fmul (Num 0) b]
        [fadd (fmul (Num 0) a) (Num (1 / 2)), fadd (fmul (Num 0) b) (Num (1 / 2))]"
    by (simp add: l gv)
qed

lemma toy_env_values:
  "g toy_magan toy_env = [Num 0, Num 0]"
  "d_real_loss toy_magan toy_env = Num (1 / 4)"
  "d_fake_loss toy_magan toy_env = Num (1 / 4)"
  using toy_values [OF toy_env_simps(1,3,2)]
  by (simp_all add: mse_loss_def reduce_mean_def)

lemma nan_margin_values:
  "d_real_loss toy_magan nan_margin_env = Num (1 / 4)"
  "d_fake_loss toy_magan nan_margin_env = Num (1 / 4)"
  using toy_values [OF nan_env_simps(1,3,2)]
  by (simp_all add: mse_loss_def reduce_mean_def)

lemma nan_image_values:
  "d_real_loss toy_magan nan_image_env = NaN"
  using toy_values [OF nan_env_simps(5,7,6)]
  by (simp_all add: mse_loss_def reduce_mean_def)

lemma nan_noise_values:
  "g toy_magan nan_noise_env = [NaN, Num 0]"
  using toy_values [OF nan_env_simps(9,11,10)]
  by simp_all

lemma toy_decoder:
  "\<exists>vs' out. decoder toy_tf MAGAN_init root_scope [] x_image None = Inr (vs', out)"
  by (simp add: decoder_def toy_defs)

section \<open>The claims\<close>



text \<open>
  C7. In the built model the generator's loss is the node \<open>d_fake_loss\<close>: at every
  environment it is the mean-squared error between the generator's output on the noise
  batch and the reconstruction that the discriminator, called with reuse, returns for
  that output; and \<open>g_op\<close> is the Adam step that minimizes this loss over the
  variables whose names start with \<open>g\<close>.
\<close>

theorem g_loss_is_d_fake_loss:
  assumes "build_magan tf c vs0 = Inr M"
  shows "\<exists>vs1 vs3 vs4 e_fake d_fake.
    generator tf c root_scope vs0 z_noise None True = Inr (vs1, g M) \<and>
    discriminator tf c root_scope vs3 (g M) (Some True) = Inr (vs4, e_fake, d_fake) \<and>
    g_loss M = d_fake_loss M \<and>
    (\<forall>e. g_loss M e = mse_loss (g M e) (d_fake e)) \<and>
    g_params M = filter (\<lambda>v. startswith v ''g'') (t_vars M) \<and>
    g_op M = minimize tf (g_lr c) (beta1 c) (beta2 c) (g_loss M) (g_params M)"
proof -
  from assms obtain vs1 gen vs3 vs4 e_fake d_fake where
    b: "generator tf c root_scope vs0 z_noise None True = Inr (vs1, gen)"
    "discriminator tf c root_scope vs3 gen (Some True) = Inr (vs4, e_fake, d_fake)"
    and gen: "g M = gen"
    and l: "d_fake_loss M = (\<lambda>e. mse_loss (gen e) (d_fake e))"
    "g_loss M = d_fake_loss M"
    and p: "t_vars M = vs4" "g_params M = filter (\<lambda>v. startswith v ''g'') vs4"
    "g_op M = minimize tf (g_lr c) (beta1 c) (beta2 c) (g_loss M) (g_params M)"
    by (rule build_maganE) blast
  have "\<forall>e. g_loss M e = mse_loss (g M e) (d_fake e)"
    by (simp add: l gen)
  with b gen l(2) p show ?thesis by auto
qed

theorem g_loss_is_d_fake_loss_witness:
  "g_loss toy_magan toy_env = Num (1 / 4) \<and>
   g_op toy_magan toy_env ''generator/gen-fc-1/kernel:0'' = [Num (- (1 / 20000))]"
proof -
  from g_loss_is_d_fake_loss [OF toy_build] have
    l: "g_loss toy_magan = d_fake_loss toy_magan"
    and p: "g_params toy_magan = filter (\<lambda>v. startswith v ''g'') (t_vars toy_magan)"
    and o: "g_op toy_magan =
      minimize toy_tf (g_lr MAGAN_init) (beta1 MAGAN_init) (beta2 MAGAN_init) (g_loss toy_magan)
        (g_params toy_magan)"
    by blast+
  have t: "t_vars toy_magan = toy_g_vars @ toy_d_vars"
    by (rule toy_magan_parts)
  have m: "''generator/gen-fc-1/kernel:0'' \<in> set (g_params toy_magan)"
    by (simp add: p t toy_g_vars_def startswith_def)
  have v: "g_loss toy_magan toy_env = Num (1 / 4)"
    by (simp add: l toy_env_values)
  have "g_op toy_magan toy_env ''generator/gen-fc-1/kernel:0'' = [Num (- (1 / 20000))]"
    using m by (subst o) (simp add: minimize_def toy_tf_simps v toy_env_simps MAGAN_init_def)
  with v show ?thesis by simp
qed

text \<open>
  C8. In the built model \<open>d_loss\<close> is at least \<open>d_real_loss\<close> at every environment
  at which \<open>d_loss\<close> is a number, and it is a number whenever the margin and the two
  reconstruction losses are numbers. (At a margin that is not a number \<open>d_loss\<close> is
  not a number, and no comparison with it holds.)
\<close>

theorem d_loss_ge_d_real_loss:
  assumes "build_magan tf c vs0 = Inr M"
  shows "(d_loss M e \<noteq> NaN \<longrightarrow> fle (d_real_loss M e) (d_loss M e)) \<and>
    (margin e \<noteq> NaN \<and> d_real_loss M e \<noteq> NaN \<and> d_fake_loss M e \<noteq> NaN \<longrightarrow>
       fle (d_real_loss M e) (d_loss M e))"
proof -
  let ?h = "maximum (Num 0) (fsub (margin e) (d_fake_loss M e))"
  have d: "d_loss M e = fadd (d_real_loss M e) ?h"
    by (rule build_magan_loss_eqs(1) [OF assms])
  have 1: "d_loss M e \<noteq> NaN \<longrightarrow> fle (d_real_loss M e) (d_loss M e)"
    using fadd_nonneg_ge [OF maximum_0_nonneg, of "d_real_loss M e" "fsub (margin e) (d_fake_loss M e)"]
    by (simp add: d)
  have 2: "d_loss M e \<noteq> NaN"
    if "margin e \<noteq> NaN" "d_real_loss M e \<noteq> NaN" "d_fake_loss M e \<noteq> NaN"
    using that by (cases "margin e"; cases "d_real_loss M e"; cases "d_fake_loss M e") (simp_all add: d)
  from 1 2 show ?thesis by blast
qed

theorem d_loss_ge_d_real_loss_witness:
  "d_loss toy_magan toy_env = Num (1 / 4) \<and>
   fle (d_real_loss toy_magan toy_env) (d_loss toy_magan toy_env)"
proof -
  have v: "d_loss toy_magan toy_env = Num (1 / 4)"
    by (simp add: build_magan_loss_eqs(1) [OF toy_build] toy_env_values toy_env_simps)
  with d_loss_ge_d_real_loss [OF toy_build, of toy_env] show ?thesis by simp
qed

theorem d_loss_ge_d_real_loss_counterexample:
  "build_magan toy_tf MAGAN_init [] = Inr toy_magan \<and>
   d_real_loss toy_magan nan_margin_env = Num (1 / 4) \<and>
   d_loss toy_magan nan_margin_env = NaN \<and>
   \<not> fle (d_real_loss toy_magan nan_margin_env) (d_loss toy_magan nan_margin_env)"
  by (simp add: toy_build build_magan_loss_eqs(1) [OF toy_build] nan_margin_values nan_env_simps)

text \<open>
  C9. In the built model, at an environment where \<open>d_fake_loss\<close> exceeds the margin,
  \<open>d_loss\<close> equals \<open>d_real_loss\<close>.
\<close>

theorem d_loss_beyond_margin:
  assumes "build_magan tf c vs0 = Inr M" and "flt (margin e) (d_fake_loss M e)"
  shows "d_loss M e = d_real_loss M e"
proof -
  from assms(2) obtain a b where "margin e = Num a" "d_fake_loss M e = Num b" "a < b"
    by (auto simp: flt_iff)
  then show ?thesis
    by (simp add: build_magan_loss_eqs(1) [OF assms(1)])
qed

theorem d_loss_beyond_margin_witness:
  "flt (margin toy_env) (d_fake_loss toy_magan toy_env) \<and>
   d_loss toy_magan toy_env = d_real_loss toy_magan toy_env"
proof -
  have h: "flt (margin toy_env) (d_fake_loss toy_magan toy_env)"
    by (simp add: toy_env_values toy_env_simps)
  show ?thesis
    using h d_loss_beyond_margin [OF toy_build h] by simp
qed

text \<open>
  C10. In the built model each of the four losses is, at every environment, a
  non-negative number or not a number. The two reconstruction losses, and with them the
  generator's loss, are non-negative numbers when the batch and its reconstruction are
  not empty and hold only numbers; \<open>d_loss\<close> is a non-negative number when the margin
  and the two reconstruction losses are numbers.
\<close>

theorem losses_nonneg:
  assumes "build_magan tf c vs0 = Inr M"
  shows "\<exists>vs2 vs3 vs4 e_real d_real e_fake d_fake.
    discriminator tf c root_scope vs2 x_image None = Inr (vs3, e_real, d_real) \<and>
    discriminator tf c root_scope vs3 (g M) (Some True) = Inr (vs4, e_fake, d_fake) \<and>
    (\<forall>e. (d_real_loss M e = NaN \<or> fle (Num 0) (d_real_loss M e)) \<and>
         (d_fake_loss M e = NaN \<or> fle (Num 0) (d_fake_loss M e)) \<and>
         (g_loss M e = NaN \<or> fle (Num 0) (g_loss M e)) \<and>
         (d_loss M e = NaN \<or> fle (Num 0) (d_loss M e)) \<and>
         (x_image e \<noteq> [] \<and> d_real e \<noteq> [] \<and> NaN \<notin> set (x_image e) \<and> NaN \<notin> set (d_real e) \<longrightarrow>
            fle (Num 0) (d_real_loss M e)) \<and>
         (g M e \<noteq> [] \<and> d_fake e \<noteq> [] \<and> NaN \<notin> set (g M e) \<and> NaN \<notin> set (d_fake e) \<longrightarrow>
            fle (Num 0) (d_fake_loss M e) \<and> fle (Num 0) (g_loss M e)) \<and>
         (margin e \<noteq> NaN \<and> d_real_loss M e \<noteq> NaN \<and> d_fake_loss M e \<noteq> NaN \<longrightarrow>
            fle (Num 0) (d_loss M e)))"
proof -
  from assms obtain gen vs2 vs3 e_real d_real vs4 e_fake d_fake where
    d: "discriminator tf c root_scope vs2 x_image None = Inr (vs3, e_real, d_real)"
    "discriminator tf c root_scope vs3 gen (Some True) = Inr (vs4, e_fake, d_fake)"
    and gen: "g M = gen"
    and l: "d_real_loss M = (\<lambda>e. mse_loss (x_image e) (d_real e))"
    "d_fake_loss M = (\<lambda>e. mse_loss (gen e) (d_fake e))"
    by (rule build_maganE) blast
  note q = build_magan_loss_eqs [OF assms]
  have r: "d_real_loss M e = NaN \<or> fle (Num 0) (d_real_loss M e)" for e by (rule q(3))
  have f: "d_fake_loss M e = NaN \<or> fle (Num 0) (d_fake_loss M e)" for e by (rule q(4))
  have gl: "g_loss M e = d_fake_loss M e" for e by (simp add: q(2))
  have dl: "d_loss M e = NaN \<or> fle (Num 0) (d_loss M e)" for e
    unfolding q(1) by (rule fadd_nonneg [OF r maximum_0_nonneg])
  have rn: "fle (Num 0) (d_real_loss M e)"
    if "x_image e \<noteq> []" "d_real e \<noteq> []" "NaN \<notin> set (x_image e)" "NaN \<notin> set (d_real e)" for e
    using r [of e] mse_loss_Num [OF that] by (simp add: l(1))
  have fn: "fle (Num 0) (d_fake_loss M e)"
    if "g M e \<noteq> []" "d_fake e \<noteq> []" "NaN \<notin> set (g M e)" "NaN \<notin> set (d_fake e)" for e
    using f [of e] mse_loss_Num [OF that] by (simp add: l(2) gen)
  have dn: "fle (Num 0) (d_loss M e)"
    if "margin e \<noteq> NaN" "d_real_loss M e \<noteq> NaN" "d_fake_loss M e \<noteq> NaN" for e
  proof -
    from that have "d_loss M e \<noteq> NaN"
      by (cases "margin e"; cases "d_real_loss M e"; cases "d_fake_loss M e") (simp_all add: q(1))
    with dl [of e] show ?thesis by simp
  qed
  have "\<forall>e. (d_real_loss M e = NaN \<or> fle (Num 0) (d_real_loss M e)) \<and>
         (d_fake_loss M e = NaN \<or> fle (Num 0) (d_fake_loss M e)) \<and>
         (g_loss M e = NaN \<or> fle (Num 0) (g_loss M e)) \<and>
         (d_loss M e = NaN \<or> fle (Num 0) (d_loss M e)) \<and>
         (x_image e \<noteq> [] \<and> d_real e \<noteq> [] \<and> NaN \<notin> set (x_image e) \<and> NaN \<notin> set (d_real e) \<longrightarrow>
            fle (Num 0) (d_real_loss M e)) \<and>
         (g M e \<noteq> [] \<and> d_fake e \<noteq> [] \<and> NaN \<notin> set (g M e) \<and> NaN \<notin> set (d_fake e) \<longrightarrow>
            fle (Num 0) (d_fake_loss M e) \<and> fle (Num 0) (g_loss M e)) \<and>
         (margin e \<noteq> NaN \<and> d_real_loss M e \<noteq> NaN \<and> d_fake_loss M e \<noteq> NaN \<longrightarrow>
            fle (Num 0) (d_loss M e))"
    using r f gl dl rn fn dn by simp
  with d gen show ?thesis by blast
qed

theorem losses_nonneg_witness:
  "fle (Num 0) (d_real_loss toy_magan toy_env) \<and> fle (Num 0) (d_fake_loss toy_magan toy_env) \<and>
   fle (Num 0) (g_loss toy_magan toy_env) \<and> fle (Num 0) (d_loss toy_magan toy_env)"
proof -
  from losses_nonneg [OF toy_build] have
    a: "\<forall>e. (d_real_loss toy_magan e = NaN \<or> fle (Num 0) (d_real_loss toy_magan e)) \<and>
         (d_fake_loss toy_magan e = NaN \<or> fle (Num 0) (d_fake_loss toy_magan e)) \<and>
         (g_loss toy_magan e = NaN \<or> fle (Num 0) (g_loss toy_magan e)) \<and>
         (margin e \<noteq> NaN \<and> d_real_loss toy_magan e \<noteq> NaN \<and> d_fake_loss toy_magan e \<noteq> NaN \<longrightarrow>
            fle (Num 0) (d_loss toy_magan e))"
    by blast
  have "g_loss toy_magan toy_env = d_fake_loss toy_magan toy_env"
    by (simp add: build_magan_loss_eqs(2) [OF toy_build])
  with a [rule_format, of toy_env] show ?thesis
    by (simp add: toy_env_values toy_env_simps)
qed

theorem losses_nonneg_counterexample:
  "build_magan toy_tf MAGAN_init [] = Inr toy_magan \<and>
   d_loss toy_magan nan_margin_env = NaN \<and>
   \<not> fle (Num 0) (d_loss toy_magan nan_margin_env) \<and>
   d_real_loss toy_magan nan_image_env = NaN \<and>
   \<not> fle (Num 0) (d_real_loss toy_magan nan_image_env)"
  by (simp add: toy_build build_magan_loss_eqs(1) [OF toy_build] nan_margin_values
      nan_image_values nan_env_simps)

text \<open>
  C2. The trainable variables that building the model adds to the graph are split by
  the first letter of their names into the discriminator's and the generator's
  parameters, two lists with no common element; a run of \<open>d_real_op\<close> or of \<open>d_op\<close>
  changes no variable outside the discriminator's list, a run of \<open>g_op\<close> none outside
  the generator's, so that a discriminator step leaves every variable whose name starts
  with \<open>g\<close> as it was, and a generator step every variable whose name starts with \<open>d\<close>.
\<close>

theorem optimizer_ops_partition:
  assumes "build_magan tf c vs0 = Inr M"
  shows "set (d_params M) \<inter> set (g_params M) = {} \<and>
    (\<forall>n\<in>set (d_params M). startswith n ''d'') \<and>
    (\<forall>n\<in>set (g_params M). startswith n ''g'') \<and>
    (\<forall>n\<in>set (t_vars M). n \<in> set vs0 \<or> n \<in> set (d_params M) \<or> n \<in> set (g_params M)) \<and>
    (\<forall>n. n \<notin> set (d_params M) \<longrightarrow> d_real_op M e n = params e n \<and> d_op M e n = params e n) \<and>
    (\<forall>n. n \<notin> set (g_params M) \<longrightarrow> g_op M e n = params e n) \<and>
    (\<forall>n. startswith n ''g'' \<longrightarrow> d_real_op M e n = params e n \<and> d_op M e n = params e n) \<and>
    (\<forall>n. startswith n ''d'' \<longrightarrow> g_op M e n = params e n)"
proof -
  from assms obtain vs4 where
    t: "t_vars M = vs4"
    and d: "d_params M = filter (\<lambda>v. startswith v ''d'') vs4"
    and g: "g_params M = filter (\<lambda>v. startswith v ''g'') vs4"
    and ops: "d_real_op M = minimize tf (d_lr c) (beta1 c) (beta2 c) (d_real_loss M) (d_params M)"
      "d_op M = minimize tf (d_lr c) (beta1 c) (beta2 c) (d_loss M) (d_params M)"
      "g_op M = minimize tf (g_lr c) (beta1 c) (beta2 c) (g_loss M) (g_params M)"
    by (rule build_maganE) blast
  have disj: "set (d_params M) \<inter> set (g_params M) = {}"
    using startswith_d_g by (auto simp: d g)
  have pd: "\<forall>n\<in>set (d_params M). startswith n ''d''" by (simp add: d)
  have pg: "\<forall>n\<in>set (g_params M). startswith n ''g''" by (simp add: g)
  have sg: "startswith n ''g''" if "startswith n ''generator/''" for n
    using that startswith_append [of n "''g''" "''enerator/''"] by simp
  have sd: "startswith n ''d''" if "startswith n ''discriminator/''" for n
    using that startswith_append [of n "''d''" "''iscriminator/''"] by simp
  have cover: "\<forall>n\<in>set (t_vars M). n \<in> set vs0 \<or> n \<in> set (d_params M) \<or> n \<in> set (g_params M)"
    using build_magan_vars [OF assms] sg sd by (auto simp: t d g)
  have fd: "\<forall>n. n \<notin> set (d_params M) \<longrightarrow> d_real_op M e n = params e n \<and> d_op M e n = params e n"
    by (simp add: ops minimize_frame)
  have fg: "\<forall>n. n \<notin> set (g_params M) \<longrightarrow> g_op M e n = params e n"
    by (simp add: ops minimize_frame)
  have xd: "\<forall>n. startswith n ''g'' \<longrightarrow> d_real_op M e n = params e n \<and> d_op M e n = params e n"
    using fd pd startswith_d_g by blast
  have xg: "\<forall>n. startswith n ''d'' \<longrightarrow> g_op M e n = params e n"
    using fg pg startswith_d_g by blast
  from disj pd pg cover fd fg xd xg show ?thesis by blast
qed

theorem optimizer_ops_partition_witness:
  "d_real_op toy_magan toy_env ''generator/gen-fc-1/kernel:0'' = [Num 0] \<and>
   d_op toy_magan toy_env ''generator/gen-fc-1/kernel:0'' = [Num 0] \<and>
   g_op toy_magan toy_env ''discriminator/encoder/enc-conv2d-1/kernel:0'' = [Num 0]"
proof -
  note p = optimizer_ops_partition [OF toy_build, of toy_env]
  from p have a: "\<forall>n. startswith n ''g'' \<longrightarrow>
      d_real_op toy_magan toy_env n = params toy_env n \<and> d_op toy_magan toy_env n = params toy_env n"
    by blast
  from p have b: "\<forall>n. startswith n ''d'' \<longrightarrow> g_op toy_magan toy_env n = params toy_env n"
    by blast
  from a b show ?thesis
    by (simp add: startswith_def toy_env_simps)
qed

text \<open>
  C3. The generator's assertion compares \<open>fc_unit\<close> with \<open>(4 * 4 * gf_dim) // 2\<close>,
  while the reshape that follows it uses \<open>gf_dim // 2\<close> channels. For an odd
  \<open>gf_dim\<close> the two disagree: with \<open>gf_dim = 3\<close> the configuration
  \<open>fc_unit = 16 = 4 * 4 * (3 // 2)\<close> raises the assertion error, and the configuration
  \<open>fc_unit = 24\<close>, which differs from \<open>4 * 4 * (3 // 2)\<close>, passes the assertion.
\<close>

theorem generator_assertion_odd_gf_dim:
  "fc_unit (MAGAN_init\<lparr>gf_dim := 3, fc_unit := 16\<rparr>) =
     4 * 4 * (gf_dim (MAGAN_init\<lparr>gf_dim := 3, fc_unit := 16\<rparr>) div 2) \<and>
   generator toy_tf (MAGAN_init\<lparr>gf_dim := 3, fc_unit := 16\<rparr>) root_scope [] z_noise None True =
     Inl AssertionError \<and>
   fc_unit (MAGAN_init\<lparr>gf_dim := 3, fc_unit := 24\<rparr>) \<noteq>
     4 * 4 * (gf_dim (MAGAN_init\<lparr>gf_dim := 3, fc_unit := 24\<rparr>) div 2) \<and>
   generator toy_tf (MAGAN_init\<lparr>gf_dim := 3, fc_unit := 24\<rparr>) root_scope [] z_noise None True \<noteq>
     Inl AssertionError"
  by (simp add: generator_assert_iff MAGAN_init_def)

text \<open>
  C4. A call of the discriminator that succeeds returns the encoder's output on the
  input together with the decoder's output on that embedding; and a second call with
  reuse enabled, on any input and in the graph the first call left (or a larger one),
  succeeds, declares no variable, and computes the same function of the variable store
  and the input batch as the first call: with the same store and equal inputs, both
  the embeddings and the reconstructions are equal.
\<close>

theorem discriminator_pair_shared:
  assumes "discriminator tf c sc vs x reuse = Inr (vs', emb, dec)"
  shows "(\<exists>vs1. encoder tf c (variable_scope sc ''discriminator'' reuse) vs x reuse = Inr (vs1, emb) \<and>
            decoder tf c (variable_scope sc ''discriminator'' reuse) vs1 emb reuse = Inr (vs', dec)) \<and>
    (\<exists>emb' dec'. discriminator tf c sc vs' y (Some True) = Inr (vs', emb', dec') \<and>
       (\<forall>e e'. params e = params e' \<longrightarrow> x e = y e' \<longrightarrow> emb e = emb' e' \<and> dec e = dec' e'))"
proof
  from assms show "\<exists>vs1. encoder tf c (variable_scope sc ''discriminator'' reuse) vs x reuse = Inr (vs1, emb) \<and>
            decoder tf c (variable_scope sc ''discriminator'' reuse) vs1 emb reuse = Inr (vs', dec)"
    by (rule discriminatorE) blast
  from assms show "\<exists>emb' dec'. discriminator tf c sc vs' y (Some True) = Inr (vs', emb', dec') \<and>
       (\<forall>e e'. params e = params e' \<longrightarrow> x e = y e' \<longrightarrow> emb e = emb' e' \<and> dec e = dec' e')"
    by (rule discriminator_reuse) simp
qed

theorem discriminator_pair_shared_witness:
  "fst (projr (discriminator toy_tf MAGAN_init root_scope (toy_g_vars @ toy_d_vars) x_image
      (Some True))) = toy_g_vars @ toy_d_vars \<and>
   snd (snd (projr (discriminator toy_tf MAGAN_init root_scope toy_g_vars x_image None))) toy_env =
   snd (snd (projr (discriminator toy_tf MAGAN_init root_scope (toy_g_vars @ toy_d_vars) x_image
      (Some True)))) toy_env"
proof -
  obtain a b where 1:
    "discriminator toy_tf MAGAN_init root_scope toy_g_vars x_image None =
       Inr (toy_g_vars @ toy_d_vars, a, b)"
    using toy_discriminator by blast
  from discriminator_pair_shared [OF 1, of x_image] obtain a' b' where 2:
    "discriminator toy_tf MAGAN_init root_scope (toy_g_vars @ toy_d_vars) x_image (Some True) =
       Inr (toy_g_vars @ toy_d_vars, a', b')"
    and 3: "\<forall>e e'. params e = params e' \<longrightarrow> x_image e = x_image e' \<longrightarrow> a e = a' e' \<and> b e = b' e'"
    by blast
  from 3 have "b toy_env = b' toy_env" by blast
  then show ?thesis by (simp add: 1 2)
qed

text \<open>
  C5. Every element of the generator's output is a number in \<open>[-1, 1]\<close> or not a
  number, whatever the latent input and the values of the variables: the output is the
  \<open>tanh\<close> of the last deconvolution's output, and it holds a not-a-number exactly
  when that output does.
\<close>

theorem generator_output_range:
  assumes "generator tf c sc vs z reuse is_train = Inr (vs', out)"
  shows "\<exists>vs6 x7 pre.
    layer_call tf (variable_scope sc ''generator'' reuse) vs6 Deconv2d ''gen-deconv2d-3''
      (\<lambda>ps v. deconv2d tf ps v (channel c) 4 2) (leaky_relu \<circ> x7) = Inr (vs', pre) \<and>
    (\<forall>e. out e = tf_tanh (pre e) \<and>
         (\<forall>v\<in>set (out e). v = NaN \<or> (fle (Num (- 1)) v \<and> fle v (Num 1))) \<and>
         (NaN \<in> set (out e) \<longleftrightarrow> NaN \<in> set (pre e)))"
proof -
  from assms obtain vs6 x7 x8 where
    l: "layer_call tf (variable_scope sc ''generator'' reuse) vs6 Deconv2d ''gen-deconv2d-3''
      (\<lambda>ps v. deconv2d tf ps v (channel c) 4 2) (leaky_relu \<circ> x7) = Inr (vs', x8)"
    and out: "out = tf_tanh \<circ> x8"
    by (rule generatorE) blast
  have "\<forall>e. out e = tf_tanh (x8 e) \<and>
         (\<forall>v\<in>set (out e). v = NaN \<or> (fle (Num (- 1)) v \<and> fle v (Num 1))) \<and>
         (NaN \<in> set (out e) \<longleftrightarrow> NaN \<in> set (x8 e))"
    using tf_tanh_range by (simp add: out tf_tanh_NaN)
  with l show ?thesis by blast
qed

theorem generator_output_range_witness:
  "list_all (\<lambda>v. v = NaN \<or> (fle (Num (- 1)) v \<and> fle v (Num 1))) (g toy_magan toy_env)"
proof -
  have "generator toy_tf MAGAN_init root_scope [] z_noise None True = Inr (toy_g_vars, g toy_magan)"
    by (rule toy_magan_parts)
  from generator_output_range [OF this] show ?thesis
    by (auto simp: list_all_iff)
qed

theorem generator_output_range_counterexample:
  "generator toy_tf MAGAN_init root_scope [] z_noise None True = Inr (toy_g_vars, g toy_magan) \<and>
   g toy_magan nan_noise_env = [NaN, Num 0] \<and>
   \<not> (fle (Num (- 1)) NaN \<and> fle NaN (Num 1))"
proof -
  have "generator toy_tf MAGAN_init root_scope [] z_noise None True = Inr (toy_g_vars, g toy_magan)"
    by (rule toy_magan_parts)
  then show ?thesis by (simp add: nan_noise_values)
qed

text \<open>
  C6. Every element of the decoder's output is a number in \<open>[0, 1]\<close> or not a number,
  whatever the embedding and the values of the variables: the output is the sigmoid of
  the last deconvolution's output, and it holds a not-a-number exactly when that output
  does.
\<close>

theorem decoder_output_range:
  assumes "decoder tf c sc vs x reuse = Inr (vs', out)"
  shows "\<exists>vs4 x4 pre.
    layer_call tf (variable_scope sc ''decoder'' reuse) vs4 Deconv2d ''dec-deconv2d-3''
      (\<lambda>ps v. deconv2d tf ps v (channel c) 4 2) (leaky_relu \<circ> x4) = Inr (vs', pre) \<and>
    (\<forall>e. out e = sigmoid (pre e) \<and>
         (\<forall>v\<in>set (out e). v = NaN \<or> (fle (Num 0) v \<and> fle v (Num 1))) \<and>
         (NaN \<in> set (out e) \<longleftrightarrow> NaN \<in> set (pre e)))"
proof -
  from assms obtain vs4 x4 x5 where
    l: "layer_call tf (variable_scope sc ''decoder'' reuse) vs4 Deconv2d ''dec-deconv2d-3''
      (\<lambda>ps v. deconv2d tf ps v (channel c) 4 2) (leaky_relu \<circ> x4) = Inr (vs', x5)"
    and out: "out = sigmoid \<circ> x5"
    by (rule decoderE) blast
  have "\<forall>e. out e = sigmoid (x5 e) \<and>
         (\<forall>v\<in>set (out e). v = NaN \<or> (fle (Num 0) v \<and> fle v (Num 1))) \<and>
         (NaN \<in> set (out e) \<longleftrightarrow> NaN \<in> set (x5 e))"
    using sigmoid_range by (simp add: out sigmoid_NaN)
  with l show ?thesis by blast
qed

theorem decoder_output_range_witness:
  "list_all (\<lambda>v. v = NaN \<or> (fle (Num 0) v \<and> fle v (Num 1)))
     (snd (projr (decoder toy_tf MAGAN_init root_scope [] x_image None)) toy_env)"
proof -
  from toy_decoder obtain vs' out where
    d: "decoder toy_tf MAGAN_init root_scope [] x_image None = Inr (vs', out)"
    by blast
  from decoder_output_range [OF d] show ?thesis
    by (auto simp: d list_all_iff)
qed

theorem decoder_output_range_counterexample:
  "\<not> isl (decoder toy_tf MAGAN_init root_scope [] x_image None) \<and>
   snd (projr (decoder toy_tf MAGAN_init root_scope [] x_image None)) nan_image_env =
     [NaN, Num (1 / 2)] \<and>
   \<not> (fle (Num 0) NaN \<and> fle NaN (Num 1))"
proof -
  from toy_decoder obtain vs' out where
    d: "decoder toy_tf MAGAN_init root_scope [] x_image None = Inr (vs', out)"
    by blast
  from toy_decoder_value [OF d nan_env_simps(5,6)] show ?thesis
    by (simp add: d)
qed

end
